theory Spec2Isabelle
  imports Main "HOL-Library.Monad_Syntax"
begin

section \<open>Tokens and the parser session\<close>

text \<open>
  Both source files declare the same \<open>Token\<close> class (a type string and a value string)
  and the same \<open>Parser\<close> fields: the token list, the cursor \<open>pos\<close>, the list of
  error strings and the flag \<open>has_main\<close>. A \<open>Token\<close> object defines neither
  \<open>__bool__\<close> nor \<open>__len__\<close>, so in a condition it is true exactly when it is not
  \<open>None\<close>.
\<close>

datatype token = Token (tok_type: string) (tok_value: string)

record pstate =
  tokens :: "token list"
  pos :: nat
  errors :: "string list"
  has_main :: bool

definition init :: "token list \<Rightarrow> pstate" where
  "init ts = \<lparr>tokens = ts, pos = 0, errors = [], has_main = False\<rparr>"

text \<open>Python's \<open>str\<close> of a non-negative integer, used by the f-strings that print \<open>pos\<close>.\<close>

fun str_nat :: "nat \<Rightarrow> string" where
  "str_nat n =
     (if n < 10 then [''0123456789'' ! n]
      else str_nat (n div 10) @ [''0123456789'' ! (n mod 10)])"

declare str_nat.simps [simp del]

text \<open>
  An optional string argument (\<open>None\<close> by default) is tested by truthiness in the source:
  \<open>if expected_type and ...\<close>, \<open>error_msg or ...\<close>. Both \<open>None\<close> and the empty string
  are false.
\<close>

definition truthy :: "string option \<Rightarrow> bool" where
  "truthy a = (case a of None \<Rightarrow> False | Some x \<Rightarrow> x \<noteq> [])"

definition py_or :: "string option \<Rightarrow> string \<Rightarrow> string" where
  "py_or a d = (case a of None \<Rightarrow> d | Some x \<Rightarrow> if x = [] then d else x)"

text \<open>\<open>expected and actual != expected\<close> for an optional filter.\<close>

definition differs :: "string option \<Rightarrow> string \<Rightarrow> bool" where
  "differs a actual = (case a of None \<Rightarrow> False | Some x \<Rightarrow> x \<noteq> [] \<and> actual \<noteq> x)"

text \<open>The text an f-string prints for an optional argument that is known to be set.\<close>

definition shown :: "string option \<Rightarrow> string" where
  "shown a = (case a of None \<Rightarrow> ''None'' | Some x \<Rightarrow> x)"

definition datatype_names :: "string list" where
  "datatype_names = [''int'', ''float'', ''double'', ''char'']"

text \<open>\<open>token.type == 'KEYWORD' and token.value in ['int', 'float', 'double', 'char']\<close>\<close>

definition is_datatype :: "token \<Rightarrow> bool" where
  "is_datatype t = (tok_type t = ''KEYWORD'' \<and> tok_value t \<in> set datatype_names)"

text \<open>\<open>token and token.type == ty and token.value == v\<close>\<close>

definition is_tok :: "token option \<Rightarrow> string \<Rightarrow> string \<Rightarrow> bool" where
  "is_tok t ty v = (case t of None \<Rightarrow> False | Some k \<Rightarrow> tok_type k = ty \<and> tok_value k = v)"

text \<open>\<open>token and token.type == ty and token.value in vs\<close>\<close>

definition is_tok_in :: "token option \<Rightarrow> string \<Rightarrow> string list \<Rightarrow> bool" where
  "is_tok_in t ty vs = (case t of None \<Rightarrow> False | Some k \<Rightarrow> tok_type k = ty \<and> tok_value k \<in> set vs)"

abbreviation SPECIAL :: string where "SPECIAL \<equiv> ''SPECIAL CHARACTER''"
abbreviation OPERATOR :: string where "OPERATOR \<equiv> ''OPERATOR''"
abbreviation KEYWORD :: string where "KEYWORD \<equiv> ''KEYWORD''"
abbreviation IDENTIFIER :: string where "IDENTIFIER \<equiv> ''IDENTIFIER''"

section \<open>cpp\_parser.py\<close>

subsection \<open>Token navigation\<close>

definition current_token :: "pstate \<Rightarrow> token option" where
  "current_token s = (if pos s < length (tokens s) then Some (tokens s ! pos s) else None)"

definition peek_token :: "pstate \<Rightarrow> nat \<Rightarrow> token option" where
  "peek_token s offset =
     (if pos s + offset < length (tokens s) then Some (tokens s ! (pos s + offset)) else None)"

text \<open>\<open>Parser.consume\<close> of cpp\_parser.py: no diagnostic on failure.\<close>

definition cp_consume :: "pstate \<Rightarrow> string option \<Rightarrow> string option \<Rightarrow> bool \<times> pstate" where
  "cp_consume s expected_type expected_value =
     (case current_token s of
        None \<Rightarrow> (False, s)
      | Some token \<Rightarrow>
          if differs expected_type (tok_type token) then (False, s)
          else if differs expected_value (tok_value token) then (False, s)
          else (True, s\<lparr>pos := pos s + 1\<rparr>))"

definition add_error :: "pstate \<Rightarrow> string \<Rightarrow> pstate" where
  "add_error s message =
     (case current_token s of
        Some token \<Rightarrow>
          s\<lparr>errors := errors s @
            [''At token '' @ str_nat (pos s) @ '' ('' @ tok_type token @ '', ''
               @ tok_value token @ ''): '' @ message]\<rparr>
      | None \<Rightarrow> s\<lparr>errors := errors s @ [''At end of file: '' @ message]\<rparr>)"

definition expect :: "pstate \<Rightarrow> string option \<Rightarrow> string option \<Rightarrow> string option \<Rightarrow> bool \<times> pstate" where
  "expect s expected_type expected_value error_msg =
     (case current_token s of
        None \<Rightarrow> (False, add_error s (py_or error_msg ''Unexpected end of file''))
      | Some token \<Rightarrow>
          if differs expected_type (tok_type token) then
            (False, add_error s (py_or error_msg
               (''Expected type '' @ shown expected_type @ '', got '' @ tok_type token)))
          else if differs expected_value (tok_value token) then
            (False, add_error s (py_or error_msg
               (''Expected '' @ [CHR 0x27] @ shown expected_value @ [CHR 0x27] @ '', got ''
                  @ [CHR 0x27] @ tok_value token @ [CHR 0x27])))
          else (True, s\<lparr>pos := pos s + 1\<rparr>))"

text \<open>The two call shapes the grammar rules use.\<close>

abbreviation expect_special :: "pstate \<Rightarrow> string \<Rightarrow> bool \<times> pstate" where
  "expect_special s v \<equiv> expect s (Some SPECIAL) (Some v) None"

abbreviation expect_identifier :: "pstate \<Rightarrow> bool \<times> pstate" where
  "expect_identifier s \<equiv> expect s (Some IDENTIFIER) None None"

definition datatype_rule :: "pstate \<Rightarrow> bool \<times> pstate" where
  "datatype_rule s =
     (case current_token s of
        None \<Rightarrow> (False, s)
      | Some token \<Rightarrow> if is_datatype token then (True, s\<lparr>pos := pos s + 1\<rparr>) else (False, s))"

subsection \<open>Grammar rules\<close>

text \<open>
  Every method of the grammar returns a truth value and mutates the session; one method,
  \<open>assign\<close>, reads \<open>token.type\<close> without testing \<open>token\<close>, which raises
  \<open>AttributeError\<close> at the end of input. A call therefore either returns or raises, and
  the session reaches the handler in \<open>parse\<close> as it was when the exception left.

  The methods are mutually recursive and none of them recurses on a structure, so each
  call takes a recursion budget: \<open>cp_exec n r s\<close> runs method \<open>r\<close> on session \<open>s\<close>
  with nesting depth at most \<open>n\<close>, and is \<open>None\<close> when the budget does not suffice. A
  \<open>while\<close> loop is a rule of its own that ends in the statements following the loop,
  so that a \<open>return\<close> inside the loop body leaves the method. The local variable
  \<open>token\<close> is re-read after every change of \<open>pos\<close> in the loops of
  \<open>global_variable\<close> and \<open>assign\<close>, so the loop tests read the current token.
  Python's own recursion limit is not modelled.
\<close>

datatype cp_result = Return bool pstate | Raise string pstate

definition cp_then :: "cp_result option \<Rightarrow> (bool \<Rightarrow> pstate \<Rightarrow> cp_result option) \<Rightarrow> cp_result option" where
  "cp_then m f =
     (case m of
        None \<Rightarrow> None
      | Some (Raise e s) \<Rightarrow> Some (Raise e s)
      | Some (Return b s) \<Rightarrow> f b s)"

lemma cp_then_cong [fundef_cong]:
  "m = m' \<Longrightarrow> (\<And>b s. m' = Some (Return b s) \<Longrightarrow> f b s = f' b s) \<Longrightarrow> cp_then m f = cp_then m' f'"
  by (auto simp: cp_then_def split: option.splits cp_result.splits)

abbreviation ret :: "bool \<Rightarrow> pstate \<Rightarrow> cp_result option" where
  "ret b s \<equiv> Some (Return b s)"

datatype cp_rule =
    Global_declaration | Global_variable | Global_variable_loop
  | Func | Block | Block_loop | X | Assign | Assign_loop
  | Expression_statement | Expression
  | Logical_or_expr | Logical_or_loop | Logical_and_expr | Logical_and_loop
  | Equality_expr | Equality_loop | Relational_expr | Relational_loop
  | Additive_expr | Additive_loop | Multiplicative_expr | Multiplicative_loop
  | Unary_expr | Postfix_expr | Postfix_loop | Argument_list | Argument_loop
  | Primary_expr | If_statement | While_statement | For_statement | Return_statement


text \<open>\<open>self.pos += 1\<close>\<close>

definition pos_inc :: "pstate \<Rightarrow> pstate" where
  "pos_inc s = s\<lparr>pos := pos s + 1\<rparr>"

text \<open>\<open>if not self.expect(...): return False\<close> followed by \<open>return True\<close>.\<close>

definition ret_expect :: "bool \<times> pstate \<Rightarrow> cp_result option" where
  "ret_expect p = ret (fst p) (snd p)"

text \<open>\<open>token and not (token.type == ty and token.value == v)\<close>\<close>

definition is_other :: "token option \<Rightarrow> string \<Rightarrow> string \<Rightarrow> bool" where
  "is_other t ty v = (case t of None \<Rightarrow> False | Some k \<Rightarrow> \<not> (tok_type k = ty \<and> tok_value k = v))"

text \<open>The body of \<open>if\<close>, \<open>else\<close>, \<open>while\<close> and \<open>for\<close>: a block when the current token is
  an opening brace, one statement otherwise.\<close>

definition body_rule :: "pstate \<Rightarrow> cp_rule" where
  "body_rule s = (if is_tok (current_token s) SPECIAL ''{'' then Block else X)"

definition attribute_error :: string where
  "attribute_error = [CHR 0x27] @ ''NoneType'' @ [CHR 0x27] @ '' object has no attribute ''
     @ [CHR 0x27] @ ''type'' @ [CHR 0x27]"

fun cp_exec :: "nat \<Rightarrow> cp_rule \<Rightarrow> pstate \<Rightarrow> cp_result option" where
  "cp_exec 0 r s = None"
| "cp_exec (Suc n) Global_declaration s =
     (case current_token s of
        None \<Rightarrow> ret False s
      | Some token \<Rightarrow>
          if \<not> is_datatype token then
            ret False (add_error s ''Expected datatype for global declaration'')
          else (case peek_token s 1 of
            None \<Rightarrow> ret False (add_error s ''Expected identifier after datatype'')
          | Some next_token \<Rightarrow>
              if tok_type next_token \<notin> set [IDENTIFIER, KEYWORD] then
                ret False (add_error s ''Expected identifier after datatype'')
              else if is_tok (peek_token s 2) SPECIAL ''('' then cp_exec n Func s
              else cp_exec n Global_variable s))"
| "cp_exec (Suc n) Global_variable s =
     (case expect_identifier (pos_inc s) of (ok, s1) \<Rightarrow>
        if \<not> ok then ret False s1
        else if is_tok (current_token s1) OPERATOR ''='' then
          cp_then (cp_exec n Expression (pos_inc s1)) (\<lambda>_ s2. cp_exec n Global_variable_loop s2)
        else cp_exec n Global_variable_loop s1)"
| "cp_exec (Suc n) Global_variable_loop s =
     (if is_tok (current_token s) SPECIAL '','' then
        (case expect_identifier (pos_inc s) of (ok, s1) \<Rightarrow>
           if \<not> ok then ret False s1
           else if is_tok (current_token s1) OPERATOR ''='' then
             cp_then (cp_exec n Expression (pos_inc s1)) (\<lambda>_ s2. cp_exec n Global_variable_loop s2)
           else cp_exec n Global_variable_loop s1)
      else ret_expect (expect_special s '';''))"
| "cp_exec (Suc n) Func s =
     (case current_token s of
        None \<Rightarrow> ret False s
      | Some _ \<Rightarrow>
         (case datatype_rule s of (ok, s1) \<Rightarrow>
            if \<not> ok then ret False s1
            else (case current_token s1 of
              None \<Rightarrow> ret False (add_error s1 ''Expected function identifier'')
            | Some token \<Rightarrow>
                if tok_type token \<notin> set [IDENTIFIER, KEYWORD] then
                  ret False (add_error s1 ''Expected function identifier'')
                else
                  (case expect_special
                          (pos_inc (if tok_value token = ''main'' then s1\<lparr>has_main := True\<rparr> else s1))
                          ''('' of (ok, s2) \<Rightarrow>
                     if \<not> ok then ret False s2
                     else (case expect_special s2 '')'' of (ok, s3) \<Rightarrow>
                       if \<not> ok then ret False s3 else cp_exec n Block s3)))))"
| "cp_exec (Suc n) Block s =
     (case expect_special s ''{'' of (ok, s1) \<Rightarrow>
        if \<not> ok then ret False s1 else cp_exec n Block_loop s1)"
| "cp_exec (Suc n) Block_loop s =
     (case current_token s of
        None \<Rightarrow> ret False (add_error s (''Expected '' @ [CHR 0x27] @ ''}'' @ [CHR 0x27] @ '' to close block''))
      | Some token \<Rightarrow>
          if tok_type token = SPECIAL \<and> tok_value token = ''}'' then ret True (pos_inc s)
          else cp_then (cp_exec n X s) (\<lambda>ok s1.
            if \<not> ok then ret False (add_error s1 ''Invalid statement in block'')
            else cp_exec n Block_loop s1))"
| "cp_exec (Suc n) X s =
     (case current_token s of
        None \<Rightarrow> ret False s
      | Some token \<Rightarrow>
          if is_datatype token then
            (if is_tok (peek_token s 2) SPECIAL ''('' then cp_exec n Func s
             else cp_exec n Assign s)
          else if tok_type token = KEYWORD \<and> tok_value token = ''if'' then cp_exec n If_statement s
          else if tok_type token = KEYWORD \<and> tok_value token = ''while'' then cp_exec n While_statement s
          else if tok_type token = KEYWORD \<and> tok_value token = ''for'' then cp_exec n For_statement s
          else if tok_type token = KEYWORD \<and> tok_value token = ''return'' then cp_exec n Return_statement s
          else if tok_type token = IDENTIFIER then
            (if is_tok (peek_token s 1) OPERATOR ''='' then cp_exec n Assign s
             else cp_exec n Expression_statement s)
          else ret False s)"
| "cp_exec (Suc n) Assign s =
     (case current_token s of
        None \<Rightarrow> Some (Raise attribute_error s)
      | Some token \<Rightarrow>
         (case expect_identifier (if is_datatype token then pos_inc s else s) of (ok, s1) \<Rightarrow>
            if \<not> ok then ret False s1
            else if is_datatype token then cp_exec n Assign_loop s1
            else if is_tok (current_token s1) OPERATOR ''='' then
              cp_then (cp_exec n Expression (pos_inc s1)) (\<lambda>_ s2. ret_expect (expect_special s2 '';''))
            else ret_expect (expect_special s1 '';'')))"
| "cp_exec (Suc n) Assign_loop s =
     (if is_tok (current_token s) SPECIAL '','' then
        (case expect_identifier (pos_inc s) of (ok, s1) \<Rightarrow>
           if \<not> ok then ret False s1
           else if is_tok (current_token s1) OPERATOR ''='' then
             cp_then (cp_exec n Expression (pos_inc s1)) (\<lambda>_ s2. cp_exec n Assign_loop s2)
           else cp_exec n Assign_loop s1)
      else if is_tok (current_token s) OPERATOR ''='' then
        cp_then (cp_exec n Expression (pos_inc s)) (\<lambda>_ s2. ret_expect (expect_special s2 '';''))
      else ret_expect (expect_special s '';''))"
| "cp_exec (Suc n) Expression_statement s =
     cp_then (cp_exec n Expression s) (\<lambda>_ s1. ret_expect (expect_special s1 '';''))"
| "cp_exec (Suc n) Expression s = cp_exec n Logical_or_expr s"
| "cp_exec (Suc n) Logical_or_expr s =
     cp_then (cp_exec n Logical_and_expr s) (\<lambda>_ s1. cp_exec n Logical_or_loop s1)"
| "cp_exec (Suc n) Logical_or_loop s =
     (if is_tok (current_token s) OPERATOR ''||'' then
        cp_then (cp_exec n Logical_and_expr (pos_inc s)) (\<lambda>_ s1. cp_exec n Logical_or_loop s1)
      else ret True s)"
| "cp_exec (Suc n) Logical_and_expr s =
     cp_then (cp_exec n Equality_expr s) (\<lambda>_ s1. cp_exec n Logical_and_loop s1)"
| "cp_exec (Suc n) Logical_and_loop s =
     (if is_tok (current_token s) OPERATOR ''&&'' then
        cp_then (cp_exec n Equality_expr (pos_inc s)) (\<lambda>_ s1. cp_exec n Logical_and_loop s1)
      else ret True s)"
| "cp_exec (Suc n) Equality_expr s =
     cp_then (cp_exec n Relational_expr s) (\<lambda>_ s1. cp_exec n Equality_loop s1)"
| "cp_exec (Suc n) Equality_loop s =
     (if is_tok_in (current_token s) OPERATOR [''=='', ''!=''] then
        cp_then (cp_exec n Relational_expr (pos_inc s)) (\<lambda>_ s1. cp_exec n Equality_loop s1)
      else ret True s)"
| "cp_exec (Suc n) Relational_expr s =
     cp_then (cp_exec n Additive_expr s) (\<lambda>_ s1. cp_exec n Relational_loop s1)"
| "cp_exec (Suc n) Relational_loop s =
     (if is_tok_in (current_token s) OPERATOR [''<'', ''>'', ''<='', ''>=''] then
        cp_then (cp_exec n Additive_expr (pos_inc s)) (\<lambda>_ s1. cp_exec n Relational_loop s1)
      else ret True s)"
| "cp_exec (Suc n) Additive_expr s =
     cp_then (cp_exec n Multiplicative_expr s) (\<lambda>_ s1. cp_exec n Additive_loop s1)"
| "cp_exec (Suc n) Additive_loop s =
     (if is_tok_in (current_token s) OPERATOR [''+'', ''-''] then
        cp_then (cp_exec n Multiplicative_expr (pos_inc s)) (\<lambda>_ s1. cp_exec n Additive_loop s1)
      else ret True s)"
| "cp_exec (Suc n) Multiplicative_expr s =
     cp_then (cp_exec n Unary_expr s) (\<lambda>_ s1. cp_exec n Multiplicative_loop s1)"
| "cp_exec (Suc n) Multiplicative_loop s =
     (if is_tok_in (current_token s) OPERATOR [''*'', ''/'', ''%''] then
        cp_then (cp_exec n Unary_expr (pos_inc s)) (\<lambda>_ s1. cp_exec n Multiplicative_loop s1)
      else ret True s)"
| "cp_exec (Suc n) Unary_expr s =
     (if is_tok_in (current_token s) OPERATOR [''+'', ''-'', ''++'', ''--'', ''!''] then
        cp_exec n Unary_expr (pos_inc s)
      else cp_exec n Postfix_expr s)"
| "cp_exec (Suc n) Postfix_expr s =
     cp_then (cp_exec n Primary_expr s) (\<lambda>_ s1. cp_exec n Postfix_loop s1)"
| "cp_exec (Suc n) Postfix_loop s =
     (case current_token s of
        None \<Rightarrow> ret True s
      | Some token \<Rightarrow>
          if tok_type token = SPECIAL \<and> tok_value token = ''['' then
            cp_then (cp_exec n Expression (pos_inc s))
              (\<lambda>_ s1. cp_exec n Postfix_loop (snd (expect_special s1 '']'')))
          else if tok_type token = SPECIAL \<and> tok_value token = ''('' then
            cp_then (cp_exec n Argument_list (pos_inc s))
              (\<lambda>_ s1. cp_exec n Postfix_loop (snd (expect_special s1 '')'')))
          else if tok_type token = OPERATOR \<and> tok_value token \<in> set [''++'', ''--''] then
            cp_exec n Postfix_loop (pos_inc s)
          else ret True s)"
| "cp_exec (Suc n) Argument_list s =
     (if is_tok (current_token s) SPECIAL '')'' then ret True s
      else cp_then (cp_exec n Expression s) (\<lambda>_ s1. cp_exec n Argument_loop s1))"
| "cp_exec (Suc n) Argument_loop s =
     (if is_tok (current_token s) SPECIAL '','' then
        cp_then (cp_exec n Expression (pos_inc s)) (\<lambda>_ s1. cp_exec n Argument_loop s1)
      else ret True s)"
| "cp_exec (Suc n) Primary_expr s =
     (case current_token s of
        None \<Rightarrow> ret False (add_error s ''Unexpected end of file in expression'')
      | Some token \<Rightarrow>
          if tok_type token = IDENTIFIER then ret True (pos_inc s)
          else if tok_type token = ''NUMBER'' then ret True (pos_inc s)
          else if tok_type token = ''STRING'' then ret True (pos_inc s)
          else if tok_type token = SPECIAL \<and> tok_value token = ''('' then
            cp_then (cp_exec n Expression (pos_inc s)) (\<lambda>_ s1. ret_expect (expect_special s1 '')''))
          else
            ret False (add_error s (''Unexpected token in expression: '' @ tok_type token @ '' ''
              @ [CHR 0x27] @ tok_value token @ [CHR 0x27])))"
| "cp_exec (Suc n) If_statement s =
     (case expect_special (pos_inc s) ''('' of (ok, s1) \<Rightarrow>
        if \<not> ok then ret False s1
        else cp_then (cp_exec n Expression s1) (\<lambda>_ s2.
          case expect_special s2 '')'' of (ok, s3) \<Rightarrow>
            if \<not> ok then ret False s3
            else cp_then (cp_exec n (body_rule s3) s3) (\<lambda>_ s4.
              if is_tok (current_token s4) KEYWORD ''else'' then
                cp_then (cp_exec n (body_rule (pos_inc s4)) (pos_inc s4)) (\<lambda>_ s5. ret True s5)
              else ret True s4)))"
| "cp_exec (Suc n) While_statement s =
     (case expect_special (pos_inc s) ''('' of (ok, s1) \<Rightarrow>
        if \<not> ok then ret False s1
        else cp_then (cp_exec n Expression s1) (\<lambda>_ s2.
          case expect_special s2 '')'' of (ok, s3) \<Rightarrow>
            if \<not> ok then ret False s3
            else cp_then (cp_exec n (body_rule s3) s3) (\<lambda>_ s4. ret True s4)))"
| "cp_exec (Suc n) For_statement s =
     (case expect_special (pos_inc s) ''('' of (ok, s1) \<Rightarrow>
        if \<not> ok then ret False s1
        else
          cp_then
            (if (case current_token s1 of None \<Rightarrow> False | Some token \<Rightarrow> tok_type token = KEYWORD)
             then cp_exec n Assign s1
             else cp_then (cp_exec n Expression s1) (\<lambda>_ s2. ret True (snd (expect_special s2 '';''))))
          (\<lambda>_ s2.
          cp_then
            (if is_other (current_token s2) SPECIAL '';'' then cp_exec n Expression s2 else ret True s2)
          (\<lambda>_ s3.
          cp_then
            (if is_other (current_token (snd (expect_special s3 '';''))) SPECIAL '')''
             then cp_exec n Expression (snd (expect_special s3 '';''))
             else ret True (snd (expect_special s3 '';'')))
          (\<lambda>_ s4.
          case expect_special s4 '')'' of (ok, s5) \<Rightarrow>
            if \<not> ok then ret False s5
            else cp_then (cp_exec n (body_rule s5) s5) (\<lambda>_ s6. ret True s6)))))"
| "cp_exec (Suc n) Return_statement s =
     cp_then
       (if is_other (current_token (pos_inc s)) SPECIAL '';'' then cp_exec n Expression (pos_inc s)
        else ret True (pos_inc s))
       (\<lambda>_ s1. ret_expect (expect_special s1 '';''))"


subsection \<open>The whole-file pass and the verdict\<close>

text \<open>
  \<open>program\<close> has no return value: it ends normally with the session, or an exception
  leaves it. Each turn of its loop is one more level of the budget.
\<close>

fun program :: "nat \<Rightarrow> pstate \<Rightarrow> (string \<times> pstate + pstate) option" where
  "program 0 s = None"
| "program (Suc n) s =
     (case current_token s of
        None \<Rightarrow> Some (Inr s)
      | Some _ \<Rightarrow>
         (case cp_exec n Global_declaration s of
            None \<Rightarrow> None
          | Some (Raise e s1) \<Rightarrow> Some (Inl (e, s1))
          | Some (Return ok s1) \<Rightarrow> if \<not> ok then Some (Inr s1) else program n s1))"

text \<open>\<open>Parser.parse\<close> followed by the caller's read of \<open>parser.errors\<close>: the verdict and
  the final session.\<close>

definition cp_parse :: "nat \<Rightarrow> token list \<Rightarrow> (bool \<times> pstate) option" where
  "cp_parse n ts =
     (case program n (init ts) of
        None \<Rightarrow> None
      | Some (Inl (e, s)) \<Rightarrow> Some (False, add_error s (''Parser exception: '' @ e))
      | Some (Inr s) \<Rightarrow>
          if \<not> has_main s then Some (False, add_error s ''Missing main function'')
          else Some (errors s = [], s))"


section \<open>new\_parse.py\<close>

subsection \<open>Token navigation\<close>

definition current :: "pstate \<Rightarrow> token option" where
  "current s = (if pos s < length (tokens s) then Some (tokens s ! pos s) else None)"

definition peek :: "pstate \<Rightarrow> nat \<Rightarrow> token option" where
  "peek s offset =
     (if pos s + offset < length (tokens s) then Some (tokens s ! (pos s + offset)) else None)"

definition advance :: "pstate \<Rightarrow> pstate" where
  "advance s = s\<lparr>pos := pos s + 1\<rparr>"

definition match :: "pstate \<Rightarrow> string option \<Rightarrow> string option \<Rightarrow> bool" where
  "match s token_type v =
     (case current s of
        None \<Rightarrow> False
      | Some tok \<Rightarrow>
          if differs token_type (tok_type tok) then False
          else if differs v (tok_value tok) then False
          else True)"

definition quoted :: "string \<Rightarrow> string" where
  "quoted x = [CHR 0x27] @ x @ [CHR 0x27]"

definition consume_msg :: "pstate \<Rightarrow> string option \<Rightarrow> string option \<Rightarrow> string option \<Rightarrow> string" where
  "consume_msg s token_type v error_msg =
     (if truthy error_msg then shown error_msg
      else (case current s of
        None \<Rightarrow> ''Unexpected end of file''
      | Some tok \<Rightarrow>
          if truthy token_type \<and> truthy v then
            ''Expected '' @ shown token_type @ '' '' @ quoted (shown v) @ '', got ''
              @ tok_type tok @ '' '' @ quoted (tok_value tok)
          else if truthy token_type then
            ''Expected '' @ shown token_type @ '', got '' @ tok_type tok
          else ''Unexpected token: '' @ tok_type tok @ '' '' @ quoted (tok_value tok)))"

definition consume :: "pstate \<Rightarrow> string option \<Rightarrow> string option \<Rightarrow> string option \<Rightarrow> bool \<times> pstate" where
  "consume s token_type v error_msg =
     (if match s token_type v then (True, advance s)
      else (False, s\<lparr>errors := errors s @
              [''At position '' @ str_nat (pos s) @ '': '' @ consume_msg s token_type v error_msg]\<rparr>))"

text \<open>The call shapes the grammar rules use; the grammar ignores the result of \<open>consume\<close>.\<close>

abbreviation consume_special :: "pstate \<Rightarrow> string \<Rightarrow> pstate" where
  "consume_special s v \<equiv> snd (consume s (Some SPECIAL) (Some v) None)"

abbreviation consume_identifier :: "pstate \<Rightarrow> pstate" where
  "consume_identifier s \<equiv> snd (consume s (Some IDENTIFIER) None None)"

abbreviation match_special :: "pstate \<Rightarrow> string \<Rightarrow> bool" where
  "match_special s v \<equiv> match s (Some SPECIAL) (Some v)"

abbreviation match_operator :: "pstate \<Rightarrow> string \<Rightarrow> bool" where
  "match_operator s v \<equiv> match s (Some OPERATOR) (Some v)"

text \<open>\<open>self.match(ty) and self.current().value in vs\<close>: the second operand is only
  evaluated when a current token exists.\<close>

definition match_in :: "pstate \<Rightarrow> string \<Rightarrow> string list \<Rightarrow> bool" where
  "match_in s ty vs =
     (match s (Some ty) None \<and> (case current s of None \<Rightarrow> False | Some tok \<Rightarrow> tok_value tok \<in> set vs))"

text \<open>\<open>self.errors.append(msg)\<close>\<close>

definition append_error :: "pstate \<Rightarrow> string \<Rightarrow> pstate" where
  "append_error s msg = s\<lparr>errors := errors s @ [msg]\<rparr>"

subsection \<open>Grammar rules\<close>

text \<open>
  The methods of this file return nothing and no attribute is read from a token that
  was not tested first, so a call yields the new session, under the same recursion
  budget as above.
\<close>

datatype np_rule =
    Parse_global_declaration | Parse_global_variable | Parse_global_variable_loop
  | Parse_function | Parse_block | Parse_block_loop | Parse_statement
  | Parse_assignment | Parse_assignment_loop
  | Parse_if_statement | Parse_while_statement | Parse_for_statement | Parse_return_statement
  | Parse_expression
  | Parse_logical_or | Parse_logical_or_loop | Parse_logical_and | Parse_logical_and_loop
  | Parse_equality | Parse_equality_loop | Parse_relational | Parse_relational_loop
  | Parse_additive | Parse_additive_loop | Parse_multiplicative | Parse_multiplicative_loop
  | Parse_unary | Parse_postfix | Parse_postfix_loop
  | Parse_argument_list | Parse_argument_loop | Parse_primary

definition np_body_rule :: "pstate \<Rightarrow> np_rule" where
  "np_body_rule s = (if match_special s ''{'' then Parse_block else Parse_statement)"

fun np_exec :: "nat \<Rightarrow> np_rule \<Rightarrow> pstate \<Rightarrow> pstate option" where
  "np_exec 0 r s = None"
| "np_exec (Suc n) Parse_global_declaration s =
     (if \<not> match_in s KEYWORD datatype_names then
        Some (advance (append_error s ''Expected datatype for global declaration''))
      else if is_tok (peek s 2) SPECIAL ''('' then np_exec n Parse_function s
      else np_exec n Parse_global_variable s)"
| "np_exec (Suc n) Parse_global_variable s =
     do {
       s2 \<leftarrow> (if match_operator (consume_identifier (advance s)) ''=''
              then np_exec n Parse_expression (advance (consume_identifier (advance s)))
              else Some (consume_identifier (advance s)));
       np_exec n Parse_global_variable_loop s2
     }"
| "np_exec (Suc n) Parse_global_variable_loop s =
     (if match_special s '','' then
        do {
          s2 \<leftarrow> (if match_operator (consume_identifier (advance s)) ''=''
                 then np_exec n Parse_expression (advance (consume_identifier (advance s)))
                 else Some (consume_identifier (advance s)));
          np_exec n Parse_global_variable_loop s2
        }
      else Some (consume_special s '';''))"
| "np_exec (Suc n) Parse_function s =
     np_exec n Parse_block
       (consume_special
         (consume_special
           (snd (consume
             (case current (advance s) of
                None \<Rightarrow> advance s
              | Some tok \<Rightarrow>
                  if tok_value tok = ''main'' then (advance s)\<lparr>has_main := True\<rparr> else advance s)
             None None None))
           ''('')
         '')'')"
| "np_exec (Suc n) Parse_block s = np_exec n Parse_block_loop (consume_special s ''{'')"
| "np_exec (Suc n) Parse_block_loop s =
     (if \<not> match_special s ''}'' then
        (case current s of
           None \<Rightarrow> Some (append_error s (''Expected '' @ quoted ''}'' @ '' to close block''))
         | Some _ \<Rightarrow> do { s1 \<leftarrow> np_exec n Parse_statement s; np_exec n Parse_block_loop s1 })
      else Some (consume_special s ''}''))"
| "np_exec (Suc n) Parse_statement s =
     (case current s of
        None \<Rightarrow> Some s
      | Some tok \<Rightarrow>
          if is_datatype tok then
            (if is_tok (peek s 2) SPECIAL ''('' then np_exec n Parse_function s
             else np_exec n Parse_assignment s)
          else if tok_type tok = KEYWORD \<and> tok_value tok = ''if'' then np_exec n Parse_if_statement s
          else if tok_type tok = KEYWORD \<and> tok_value tok = ''while'' then np_exec n Parse_while_statement s
          else if tok_type tok = KEYWORD \<and> tok_value tok = ''for'' then np_exec n Parse_for_statement s
          else if tok_type tok = KEYWORD \<and> tok_value tok = ''return'' then np_exec n Parse_return_statement s
          else if tok_type tok = IDENTIFIER then
            (if is_tok (peek s 1) OPERATOR ''='' then np_exec n Parse_assignment s
             else do { s1 \<leftarrow> np_exec n Parse_expression s; Some (consume_special s1 '';'') })
          else
            Some (advance (append_error s
              (''Invalid statement starting with '' @ tok_type tok @ '' '' @ quoted (tok_value tok)))))"
| "np_exec (Suc n) Parse_assignment s =
     (if match_in s KEYWORD datatype_names then
        np_exec n Parse_assignment_loop (consume_identifier (advance s))
      else
        do {
          s2 \<leftarrow> (if match_operator (consume_identifier s) ''=''
                 then np_exec n Parse_expression (advance (consume_identifier s))
                 else Some (consume_identifier s));
          Some (consume_special s2 '';'')
        })"
| "np_exec (Suc n) Parse_assignment_loop s =
     (if match_special s '','' then
        do {
          s2 \<leftarrow> (if match_operator (consume_identifier (advance s)) ''=''
                 then np_exec n Parse_expression (advance (consume_identifier (advance s)))
                 else Some (consume_identifier (advance s)));
          np_exec n Parse_assignment_loop s2
        }
      else
        do {
          s2 \<leftarrow> (if match_operator s ''='' then np_exec n Parse_expression (advance s) else Some s);
          Some (consume_special s2 '';'')
        })"
| "np_exec (Suc n) Parse_if_statement s =
     do {
       s2 \<leftarrow> np_exec n Parse_expression (consume_special (advance s) ''('');
       s4 \<leftarrow> np_exec n (np_body_rule (consume_special s2 '')'')) (consume_special s2 '')'');
       if match s4 (Some KEYWORD) (Some ''else'')
       then np_exec n (np_body_rule (advance s4)) (advance s4)
       else Some s4
     }"
| "np_exec (Suc n) Parse_while_statement s =
     do {
       s2 \<leftarrow> np_exec n Parse_expression (consume_special (advance s) ''('');
       np_exec n (np_body_rule (consume_special s2 '')'')) (consume_special s2 '')'')
     }"
| "np_exec (Suc n) Parse_for_statement s =
     do {
       s2 \<leftarrow> (if match (consume_special (advance s) ''('') (Some KEYWORD) None then
                np_exec n Parse_assignment (consume_special (advance s) ''('')
              else if \<not> match_special (consume_special (advance s) ''('') '';'' then
                do {
                  s1 \<leftarrow> np_exec n Parse_expression (consume_special (advance s) ''('');
                  Some (consume_special s1 '';'')
                }
              else Some (consume_special (consume_special (advance s) ''('') '';''));
       s3 \<leftarrow> (if \<not> match_special s2 '';'' then np_exec n Parse_expression s2 else Some s2);
       s5 \<leftarrow> (if \<not> match_special (consume_special s3 '';'') '')''
              then np_exec n Parse_expression (consume_special s3 '';'')
              else Some (consume_special s3 '';''));
       np_exec n (np_body_rule (consume_special s5 '')'')) (consume_special s5 '')'')
     }"
| "np_exec (Suc n) Parse_return_statement s =
     do {
       s2 \<leftarrow> (if \<not> match_special (advance s) '';'' then np_exec n Parse_expression (advance s)
              else Some (advance s));
       Some (consume_special s2 '';'')
     }"
| "np_exec (Suc n) Parse_expression s = np_exec n Parse_logical_or s"
| "np_exec (Suc n) Parse_logical_or s =
     do { s1 \<leftarrow> np_exec n Parse_logical_and s; np_exec n Parse_logical_or_loop s1 }"
| "np_exec (Suc n) Parse_logical_or_loop s =
     (if match_operator s ''||'' then
        do { s1 \<leftarrow> np_exec n Parse_logical_and (advance s); np_exec n Parse_logical_or_loop s1 }
      else Some s)"
| "np_exec (Suc n) Parse_logical_and s =
     do { s1 \<leftarrow> np_exec n Parse_equality s; np_exec n Parse_logical_and_loop s1 }"
| "np_exec (Suc n) Parse_logical_and_loop s =
     (if match_operator s ''&&'' then
        do { s1 \<leftarrow> np_exec n Parse_equality (advance s); np_exec n Parse_logical_and_loop s1 }
      else Some s)"
| "np_exec (Suc n) Parse_equality s =
     do { s1 \<leftarrow> np_exec n Parse_relational s; np_exec n Parse_equality_loop s1 }"
| "np_exec (Suc n) Parse_equality_loop s =
     (if match_in s OPERATOR [''=='', ''!=''] then
        do { s1 \<leftarrow> np_exec n Parse_relational (advance s); np_exec n Parse_equality_loop s1 }
      else Some s)"
| "np_exec (Suc n) Parse_relational s =
     do { s1 \<leftarrow> np_exec n Parse_additive s; np_exec n Parse_relational_loop s1 }"
| "np_exec (Suc n) Parse_relational_loop s =
     (if match_in s OPERATOR [''<'', ''>'', ''<='', ''>=''] then
        do { s1 \<leftarrow> np_exec n Parse_additive (advance s); np_exec n Parse_relational_loop s1 }
      else Some s)"
| "np_exec (Suc n) Parse_additive s =
     do { s1 \<leftarrow> np_exec n Parse_multiplicative s; np_exec n Parse_additive_loop s1 }"
| "np_exec (Suc n) Parse_additive_loop s =
     (if match_in s OPERATOR [''+'', ''-''] then
        do { s1 \<leftarrow> np_exec n Parse_multiplicative (advance s); np_exec n Parse_additive_loop s1 }
      else Some s)"
| "np_exec (Suc n) Parse_multiplicative s =
     do { s1 \<leftarrow> np_exec n Parse_unary s; np_exec n Parse_multiplicative_loop s1 }"
| "np_exec (Suc n) Parse_multiplicative_loop s =
     (if match_in s OPERATOR [''*'', ''/'', ''%''] then
        do { s1 \<leftarrow> np_exec n Parse_unary (advance s); np_exec n Parse_multiplicative_loop s1 }
      else Some s)"
| "np_exec (Suc n) Parse_unary s =
     (if match_in s OPERATOR [''+'', ''-'', ''++'', ''--'', ''!''] then
        np_exec n Parse_unary (advance s)
      else np_exec n Parse_postfix s)"
| "np_exec (Suc n) Parse_postfix s =
     do { s1 \<leftarrow> np_exec n Parse_primary s; np_exec n Parse_postfix_loop s1 }"
| "np_exec (Suc n) Parse_postfix_loop s =
     (case current s of
        None \<Rightarrow> Some s
      | Some _ \<Rightarrow>
          if match_special s ''['' then
            do {
              s1 \<leftarrow> np_exec n Parse_expression (advance s);
              np_exec n Parse_postfix_loop (consume_special s1 '']'')
            }
          else if match_special s ''('' then
            do {
              s1 \<leftarrow> np_exec n Parse_argument_list (advance s);
              np_exec n Parse_postfix_loop (consume_special s1 '')'')
            }
          else if match_in s OPERATOR [''++'', ''--''] then
            np_exec n Parse_postfix_loop (advance s)
          else Some s)"
| "np_exec (Suc n) Parse_argument_list s =
     (if match_special s '')'' then Some s
      else do { s1 \<leftarrow> np_exec n Parse_expression s; np_exec n Parse_argument_loop s1 })"
| "np_exec (Suc n) Parse_argument_loop s =
     (if match_special s '','' then
        do { s1 \<leftarrow> np_exec n Parse_expression (advance s); np_exec n Parse_argument_loop s1 }
      else Some s)"
| "np_exec (Suc n) Parse_primary s =
     (case current s of
        None \<Rightarrow> Some (append_error s ''Unexpected end of file in expression'')
      | Some tok \<Rightarrow>
          if tok_type tok \<in> set [IDENTIFIER, ''NUMBER'', ''STRING''] then Some (advance s)
          else if match_special s ''('' then
            do { s1 \<leftarrow> np_exec n Parse_expression (advance s); Some (consume_special s1 '')'') }
          else
            Some (advance (append_error s
              (''Unexpected token in expression: '' @ tok_type tok @ '' '' @ quoted (tok_value tok)))))"

subsection \<open>The whole-file pass and the verdict\<close>

text \<open>\<open>while self.current(): self.parse_global_declaration()\<close>\<close>

fun parse_loop :: "nat \<Rightarrow> pstate \<Rightarrow> pstate option" where
  "parse_loop 0 s = None"
| "parse_loop (Suc n) s =
     (case current s of
        None \<Rightarrow> Some s
      | Some _ \<Rightarrow> do { s1 \<leftarrow> np_exec n Parse_global_declaration s; parse_loop n s1 })"

text \<open>The rest of \<open>Parser.parse\<close>, after the loop.\<close>

definition verdict :: "pstate \<Rightarrow> bool \<times> pstate" where
  "verdict s =
     (if \<not> has_main s
      then (errors (append_error s ''Missing main function'') = [], append_error s ''Missing main function'')
      else (errors s = [], s))"

definition np_parse :: "nat \<Rightarrow> token list \<Rightarrow> (bool \<times> pstate) option" where
  "np_parse n ts = map_option verdict (parse_loop n (init ts))"


section \<open>Test inputs\<close>

abbreviation kw :: "string \<Rightarrow> token" where "kw v \<equiv> Token KEYWORD v"
abbreviation ident :: "string \<Rightarrow> token" where "ident v \<equiv> Token IDENTIFIER v"
abbreviation num :: "string \<Rightarrow> token" where "num v \<equiv> Token ''NUMBER'' v"
abbreviation sp :: "string \<Rightarrow> token" where "sp v \<equiv> Token SPECIAL v"
abbreviation op :: "string \<Rightarrow> token" where "op v \<equiv> Token OPERATOR v"

text \<open>\<open>int main ( ) { return 0 ; }\<close>\<close>

definition scenario_A :: "token list" where
  "scenario_A = [kw ''int'', ident ''main'', sp ''('', sp '')'', sp ''{'',
     kw ''return'', num ''0'', sp '';'', sp ''}'']"

text \<open>\<open>int main ( ) { for ( ; ; ) { } }\<close>\<close>

definition empty_for :: "token list" where
  "empty_for = [kw ''int'', ident ''main'', sp ''('', sp '')'', sp ''{'',
     kw ''for'', sp ''('', sp '';'', sp '';'', sp '')'', sp ''{'', sp ''}'', sp ''}'']"

text \<open>\<open>1 + 2 * 3\<close> and \<open>1 < 2 && 3 > 4\<close>\<close>

definition sum_product :: "token list" where
  "sum_product = [num ''1'', op ''+'', num ''2'', op ''*'', num ''3'']"

definition comparisons :: "token list" where
  "comparisons = [num ''1'', op ''<'', num ''2'', op ''&&'', num ''3'', op ''>'', num ''4'']"

text \<open>\<open>int main ( ) { * 3 ; }\<close>\<close>

definition bare_star :: "token list" where
  "bare_star = [kw ''int'', ident ''main'', sp ''('', sp '')'', sp ''{'',
     op ''*'', num ''3'', sp '';'', sp ''}'']"

section \<open>Invariants and termination of cpp\_parser.py\<close>



lemma current_token_eq [simp]:
  "current_token s = None \<longleftrightarrow> \<not> pos s < length (tokens s)"
  "current_token s = Some t \<longleftrightarrow> pos s < length (tokens s) \<and> t = tokens s ! pos s"
  by (auto simp: current_token_def)

lemma is_tok_current [simp]:
  "is_tok (current_token s) ty v \<longleftrightarrow> pos s < length (tokens s) \<and> is_tok (Some (tokens s ! pos s)) ty v"
  "is_tok_in (current_token s) ty vs \<longleftrightarrow> pos s < length (tokens s) \<and> is_tok_in (Some (tokens s ! pos s)) ty vs"
  "is_other (current_token s) ty v \<longleftrightarrow> pos s < length (tokens s) \<and> is_other (Some (tokens s ! pos s)) ty v"
  by (auto simp: current_token_def is_tok_def is_tok_in_def is_other_def)

lemma pos_inc_simps [simp]:
  "tokens (pos_inc s) = tokens s" "pos (pos_inc s) = Suc (pos s)"
  "errors (pos_inc s) = errors s" "has_main (pos_inc s) = has_main s"
  by (simp_all add: pos_inc_def)

lemma add_error_simps [simp]:
  "tokens (add_error s m) = tokens s" "pos (add_error s m) = pos s"
  "length (errors (add_error s m)) = Suc (length (errors s))" "has_main (add_error s m) = has_main s"
  by (simp_all add: add_error_def split: option.splits)

definition accepts :: "token \<Rightarrow> string option \<Rightarrow> string option \<Rightarrow> bool" where
  "accepts t ty v \<longleftrightarrow> \<not> differs ty (tok_type t) \<and> \<not> differs v (tok_value t)"

lemma expect_simps [simp]:
  "tokens (snd (expect s ty v m)) = tokens s"
  "has_main (snd (expect s ty v m)) = has_main s"
  "pos (snd (expect s ty v m)) = (if fst (expect s ty v m) then Suc (pos s) else pos s)"
  "length (errors (snd (expect s ty v m))) =
     (if fst (expect s ty v m) then length (errors s) else Suc (length (errors s)))"
  "fst (expect s ty v m) \<longleftrightarrow> pos s < length (tokens s) \<and> accepts (tokens s ! pos s) ty v"
  by (auto simp: expect_def accepts_def current_token_def split: option.splits)

lemma datatype_rule_simps [simp]:
  "tokens (snd (datatype_rule s)) = tokens s"
  "has_main (snd (datatype_rule s)) = has_main s"
  "errors (snd (datatype_rule s)) = errors s"
  "pos (snd (datatype_rule s)) = (if fst (datatype_rule s) then Suc (pos s) else pos s)"
  "fst (datatype_rule s) \<longleftrightarrow> pos s < length (tokens s) \<and> is_datatype (tokens s ! pos s)"
  by (auto simp: datatype_rule_def current_token_def split: option.splits)

definition cp_stmt :: "cp_rule set" where
  "cp_stmt = {Global_declaration, Global_variable, Global_variable_loop, Func, Block, Block_loop, X,
     Assign, Assign_loop, Expression_statement, If_statement, While_statement, For_statement, Return_statement}"

definition cp_fail :: "cp_rule set" where
  "cp_fail = {Global_declaration, Global_variable, Global_variable_loop, Func, Block, Block_loop}"

definition cp_pre :: "cp_rule \<Rightarrow> pstate \<Rightarrow> bool" where
  "cp_pre r s =
     ((r \<in> {Global_declaration, Global_variable, Assign, If_statement, While_statement, For_statement, Return_statement}
        \<longrightarrow> pos s < length (tokens s))
      \<and> (r = Func \<longrightarrow> (\<exists>t. current_token s = Some t \<and> is_datatype t)))"

definition cp_good :: "cp_rule \<Rightarrow> pstate \<Rightarrow> cp_result \<Rightarrow> bool" where
  "cp_good r s out =
     (case out of
        Raise e s' \<Rightarrow> False
      | Return b s' \<Rightarrow>
          tokens s' = tokens s
          \<and> pos s + of_bool (r \<in> cp_stmt \<and> b) \<le> pos s'
          \<and> pos s' \<le> length (tokens s)
          \<and> length (errors s) + of_bool (r \<in> cp_fail \<and> \<not> b) \<le> length (errors s'))"

definition cp_sound :: "nat \<Rightarrow> bool" where
  "cp_sound n \<longleftrightarrow> (\<forall>r s out. cp_exec n r s = Some out \<longrightarrow> pos s \<le> length (tokens s) \<longrightarrow> cp_pre r s \<longrightarrow> cp_good r s out)"

lemma cp_thenE:
  assumes "cp_then m f = Some out"
  obtains e s where "m = Some (Raise e s)" "out = Raise e s"
  | b s where "m = Some (Return b s)" "f b s = Some out"
  using assms by (auto simp: cp_then_def split: option.splits cp_result.splits)

lemma cp_goodD:
  "cp_good r s out \<Longrightarrow>
    \<exists>b s'. out = Return b s' \<and> tokens s' = tokens s
          \<and> pos s + of_bool (r \<in> cp_stmt \<and> b) \<le> pos s'
          \<and> pos s' \<le> length (tokens s)
          \<and> length (errors s) + of_bool (r \<in> cp_fail \<and> \<not> b) \<le> length (errors s')"
  by (cases out) (simp_all add: cp_good_def)

lemma cp_soundD:
  "cp_exec n r s = Some out \<Longrightarrow> cp_sound n \<Longrightarrow> pos s \<le> length (tokens s) \<Longrightarrow> cp_pre r s \<Longrightarrow>
    \<exists>b s'. out = Return b s' \<and> tokens s' = tokens s
          \<and> pos s + of_bool (r \<in> cp_stmt \<and> b) \<le> pos s'
          \<and> pos s' \<le> length (tokens s)
          \<and> length (errors s) + of_bool (r \<in> cp_fail \<and> \<not> b) \<le> length (errors s')"
  unfolding cp_sound_def by (rule cp_goodD) blast

lemma cp_step_Global_declaration:
  "cp_sound n \<Longrightarrow> cp_exec (Suc n) Global_declaration s = Some out \<Longrightarrow> pos s \<le> length (tokens s) \<Longrightarrow> cp_pre Global_declaration s \<Longrightarrow> cp_good Global_declaration s out"
  by (auto simp: cp_good_def cp_pre_def cp_stmt_def cp_fail_def ret_expect_def body_rule_def split_beta elim!: cp_thenE dest!: cp_soundD split: option.splits if_splits)

lemma cp_step_Global_variable:
  "cp_sound n \<Longrightarrow> cp_exec (Suc n) Global_variable s = Some out \<Longrightarrow> pos s \<le> length (tokens s) \<Longrightarrow> cp_pre Global_variable s \<Longrightarrow> cp_good Global_variable s out"
  by (auto simp: cp_good_def cp_pre_def cp_stmt_def cp_fail_def ret_expect_def body_rule_def split_beta elim!: cp_thenE dest!: cp_soundD split: option.splits if_splits)

lemma cp_step_Global_variable_loop:
  "cp_sound n \<Longrightarrow> cp_exec (Suc n) Global_variable_loop s = Some out \<Longrightarrow> pos s \<le> length (tokens s) \<Longrightarrow> cp_pre Global_variable_loop s \<Longrightarrow> cp_good Global_variable_loop s out"
  by (auto simp: cp_good_def cp_pre_def cp_stmt_def cp_fail_def ret_expect_def body_rule_def split_beta elim!: cp_thenE dest!: cp_soundD split: option.splits if_splits)

lemma cp_step_Func:
  "cp_sound n \<Longrightarrow> cp_exec (Suc n) Func s = Some out \<Longrightarrow> pos s \<le> length (tokens s) \<Longrightarrow> cp_pre Func s \<Longrightarrow> cp_good Func s out"
  by (auto simp: cp_good_def cp_pre_def cp_stmt_def cp_fail_def ret_expect_def body_rule_def split_beta elim!: cp_thenE dest!: cp_soundD split: option.splits if_splits)

lemma cp_step_Block:
  "cp_sound n \<Longrightarrow> cp_exec (Suc n) Block s = Some out \<Longrightarrow> pos s \<le> length (tokens s) \<Longrightarrow> cp_pre Block s \<Longrightarrow> cp_good Block s out"
  by (auto simp: cp_good_def cp_pre_def cp_stmt_def cp_fail_def ret_expect_def body_rule_def split_beta elim!: cp_thenE dest!: cp_soundD split: option.splits if_splits)

lemma cp_step_Block_loop:
  "cp_sound n \<Longrightarrow> cp_exec (Suc n) Block_loop s = Some out \<Longrightarrow> pos s \<le> length (tokens s) \<Longrightarrow> cp_pre Block_loop s \<Longrightarrow> cp_good Block_loop s out"
  by (auto simp: cp_good_def cp_pre_def cp_stmt_def cp_fail_def ret_expect_def body_rule_def split_beta elim!: cp_thenE dest!: cp_soundD split: option.splits if_splits)

lemma cp_step_X:
  "cp_sound n \<Longrightarrow> cp_exec (Suc n) X s = Some out \<Longrightarrow> pos s \<le> length (tokens s) \<Longrightarrow> cp_pre X s \<Longrightarrow> cp_good X s out"
  by (auto simp: cp_good_def cp_pre_def cp_stmt_def cp_fail_def ret_expect_def body_rule_def split_beta elim!: cp_thenE dest!: cp_soundD split: option.splits if_splits)

lemma cp_step_Assign:
  "cp_sound n \<Longrightarrow> cp_exec (Suc n) Assign s = Some out \<Longrightarrow> pos s \<le> length (tokens s) \<Longrightarrow> cp_pre Assign s \<Longrightarrow> cp_good Assign s out"
  by (auto simp: cp_good_def cp_pre_def cp_stmt_def cp_fail_def ret_expect_def body_rule_def split_beta elim!: cp_thenE dest!: cp_soundD split: option.splits if_splits)

lemma cp_step_Assign_loop:
  "cp_sound n \<Longrightarrow> cp_exec (Suc n) Assign_loop s = Some out \<Longrightarrow> pos s \<le> length (tokens s) \<Longrightarrow> cp_pre Assign_loop s \<Longrightarrow> cp_good Assign_loop s out"
  by (auto simp: cp_good_def cp_pre_def cp_stmt_def cp_fail_def ret_expect_def body_rule_def split_beta elim!: cp_thenE dest!: cp_soundD split: option.splits if_splits)

lemma cp_step_Expression_statement:
  "cp_sound n \<Longrightarrow> cp_exec (Suc n) Expression_statement s = Some out \<Longrightarrow> pos s \<le> length (tokens s) \<Longrightarrow> cp_pre Expression_statement s \<Longrightarrow> cp_good Expression_statement s out"
  by (auto simp: cp_good_def cp_pre_def cp_stmt_def cp_fail_def ret_expect_def body_rule_def split_beta elim!: cp_thenE dest!: cp_soundD split: option.splits if_splits)

lemma cp_step_Expression:
  "cp_sound n \<Longrightarrow> cp_exec (Suc n) Expression s = Some out \<Longrightarrow> pos s \<le> length (tokens s) \<Longrightarrow> cp_pre Expression s \<Longrightarrow> cp_good Expression s out"
  by (auto simp: cp_good_def cp_pre_def cp_stmt_def cp_fail_def ret_expect_def body_rule_def split_beta elim!: cp_thenE dest!: cp_soundD split: option.splits if_splits)

lemma cp_step_Logical_or_expr:
  "cp_sound n \<Longrightarrow> cp_exec (Suc n) Logical_or_expr s = Some out \<Longrightarrow> pos s \<le> length (tokens s) \<Longrightarrow> cp_pre Logical_or_expr s \<Longrightarrow> cp_good Logical_or_expr s out"
  by (auto simp: cp_good_def cp_pre_def cp_stmt_def cp_fail_def ret_expect_def body_rule_def split_beta elim!: cp_thenE dest!: cp_soundD split: option.splits if_splits)

lemma cp_step_Logical_or_loop:
  "cp_sound n \<Longrightarrow> cp_exec (Suc n) Logical_or_loop s = Some out \<Longrightarrow> pos s \<le> length (tokens s) \<Longrightarrow> cp_pre Logical_or_loop s \<Longrightarrow> cp_good Logical_or_loop s out"
  by (auto simp: cp_good_def cp_pre_def cp_stmt_def cp_fail_def ret_expect_def body_rule_def split_beta elim!: cp_thenE dest!: cp_soundD split: option.splits if_splits)

lemma cp_step_Logical_and_expr:
  "cp_sound n \<Longrightarrow> cp_exec (Suc n) Logical_and_expr s = Some out \<Longrightarrow> pos s \<le> length (tokens s) \<Longrightarrow> cp_pre Logical_and_expr s \<Longrightarrow> cp_good Logical_and_expr s out"
  by (auto simp: cp_good_def cp_pre_def cp_stmt_def cp_fail_def ret_expect_def body_rule_def split_beta elim!: cp_thenE dest!: cp_soundD split: option.splits if_splits)

lemma cp_step_Logical_and_loop:
  "cp_sound n \<Longrightarrow> cp_exec (Suc n) Logical_and_loop s = Some out \<Longrightarrow> pos s \<le> length (tokens s) \<Longrightarrow> cp_pre Logical_and_loop s \<Longrightarrow> cp_good Logical_and_loop s out"
  by (auto simp: cp_good_def cp_pre_def cp_stmt_def cp_fail_def ret_expect_def body_rule_def split_beta elim!: cp_thenE dest!: cp_soundD split: option.splits if_splits)

lemma cp_step_Equality_expr:
  "cp_sound n \<Longrightarrow> cp_exec (Suc n) Equality_expr s = Some out \<Longrightarrow> pos s \<le> length (tokens s) \<Longrightarrow> cp_pre Equality_expr s \<Longrightarrow> cp_good Equality_expr s out"
  by (auto simp: cp_good_def cp_pre_def cp_stmt_def cp_fail_def ret_expect_def body_rule_def split_beta elim!: cp_thenE dest!: cp_soundD split: option.splits if_splits)

lemma cp_step_Equality_loop:
  "cp_sound n \<Longrightarrow> cp_exec (Suc n) Equality_loop s = Some out \<Longrightarrow> pos s \<le> length (tokens s) \<Longrightarrow> cp_pre Equality_loop s \<Longrightarrow> cp_good Equality_loop s out"
  by (auto simp: cp_good_def cp_pre_def cp_stmt_def cp_fail_def ret_expect_def body_rule_def split_beta elim!: cp_thenE dest!: cp_soundD split: option.splits if_splits)

lemma cp_step_Relational_expr:
  "cp_sound n \<Longrightarrow> cp_exec (Suc n) Relational_expr s = Some out \<Longrightarrow> pos s \<le> length (tokens s) \<Longrightarrow> cp_pre Relational_expr s \<Longrightarrow> cp_good Relational_expr s out"
  by (auto simp: cp_good_def cp_pre_def cp_stmt_def cp_fail_def ret_expect_def body_rule_def split_beta elim!: cp_thenE dest!: cp_soundD split: option.splits if_splits)

lemma cp_step_Relational_loop:
  "cp_sound n \<Longrightarrow> cp_exec (Suc n) Relational_loop s = Some out \<Longrightarrow> pos s \<le> length (tokens s) \<Longrightarrow> cp_pre Relational_loop s \<Longrightarrow> cp_good Relational_loop s out"
  by (auto simp: cp_good_def cp_pre_def cp_stmt_def cp_fail_def ret_expect_def body_rule_def split_beta elim!: cp_thenE dest!: cp_soundD split: option.splits if_splits)

lemma cp_step_Additive_expr:
  "cp_sound n \<Longrightarrow> cp_exec (Suc n) Additive_expr s = Some out \<Longrightarrow> pos s \<le> length (tokens s) \<Longrightarrow> cp_pre Additive_expr s \<Longrightarrow> cp_good Additive_expr s out"
  by (auto simp: cp_good_def cp_pre_def cp_stmt_def cp_fail_def ret_expect_def body_rule_def split_beta elim!: cp_thenE dest!: cp_soundD split: option.splits if_splits)

lemma cp_step_Additive_loop:
  "cp_sound n \<Longrightarrow> cp_exec (Suc n) Additive_loop s = Some out \<Longrightarrow> pos s \<le> length (tokens s) \<Longrightarrow> cp_pre Additive_loop s \<Longrightarrow> cp_good Additive_loop s out"
  by (auto simp: cp_good_def cp_pre_def cp_stmt_def cp_fail_def ret_expect_def body_rule_def split_beta elim!: cp_thenE dest!: cp_soundD split: option.splits if_splits)

lemma cp_step_Multiplicative_expr:
  "cp_sound n \<Longrightarrow> cp_exec (Suc n) Multiplicative_expr s = Some out \<Longrightarrow> pos s \<le> length (tokens s) \<Longrightarrow> cp_pre Multiplicative_expr s \<Longrightarrow> cp_good Multiplicative_expr s out"
  by (auto simp: cp_good_def cp_pre_def cp_stmt_def cp_fail_def ret_expect_def body_rule_def split_beta elim!: cp_thenE dest!: cp_soundD split: option.splits if_splits)

lemma cp_step_Multiplicative_loop:
  "cp_sound n \<Longrightarrow> cp_exec (Suc n) Multiplicative_loop s = Some out \<Longrightarrow> pos s \<le> length (tokens s) \<Longrightarrow> cp_pre Multiplicative_loop s \<Longrightarrow> cp_good Multiplicative_loop s out"
  by (auto simp: cp_good_def cp_pre_def cp_stmt_def cp_fail_def ret_expect_def body_rule_def split_beta elim!: cp_thenE dest!: cp_soundD split: option.splits if_splits)

lemma cp_step_Unary_expr:
  "cp_sound n \<Longrightarrow> cp_exec (Suc n) Unary_expr s = Some out \<Longrightarrow> pos s \<le> length (tokens s) \<Longrightarrow> cp_pre Unary_expr s \<Longrightarrow> cp_good Unary_expr s out"
  by (auto simp: cp_good_def cp_pre_def cp_stmt_def cp_fail_def ret_expect_def body_rule_def split_beta elim!: cp_thenE dest!: cp_soundD split: option.splits if_splits)

lemma cp_step_Postfix_expr:
  "cp_sound n \<Longrightarrow> cp_exec (Suc n) Postfix_expr s = Some out \<Longrightarrow> pos s \<le> length (tokens s) \<Longrightarrow> cp_pre Postfix_expr s \<Longrightarrow> cp_good Postfix_expr s out"
  by (auto simp: cp_good_def cp_pre_def cp_stmt_def cp_fail_def ret_expect_def body_rule_def split_beta elim!: cp_thenE dest!: cp_soundD split: option.splits if_splits)

lemma cp_step_Postfix_loop:
  "cp_sound n \<Longrightarrow> cp_exec (Suc n) Postfix_loop s = Some out \<Longrightarrow> pos s \<le> length (tokens s) \<Longrightarrow> cp_pre Postfix_loop s \<Longrightarrow> cp_good Postfix_loop s out"
  by (auto simp: cp_good_def cp_pre_def cp_stmt_def cp_fail_def ret_expect_def body_rule_def split_beta elim!: cp_thenE dest!: cp_soundD split: option.splits if_splits)

lemma cp_step_Argument_list:
  "cp_sound n \<Longrightarrow> cp_exec (Suc n) Argument_list s = Some out \<Longrightarrow> pos s \<le> length (tokens s) \<Longrightarrow> cp_pre Argument_list s \<Longrightarrow> cp_good Argument_list s out"
  by (auto simp: cp_good_def cp_pre_def cp_stmt_def cp_fail_def ret_expect_def body_rule_def split_beta elim!: cp_thenE dest!: cp_soundD split: option.splits if_splits)

lemma cp_step_Argument_loop:
  "cp_sound n \<Longrightarrow> cp_exec (Suc n) Argument_loop s = Some out \<Longrightarrow> pos s \<le> length (tokens s) \<Longrightarrow> cp_pre Argument_loop s \<Longrightarrow> cp_good Argument_loop s out"
  by (auto simp: cp_good_def cp_pre_def cp_stmt_def cp_fail_def ret_expect_def body_rule_def split_beta elim!: cp_thenE dest!: cp_soundD split: option.splits if_splits)

lemma cp_step_Primary_expr:
  "cp_sound n \<Longrightarrow> cp_exec (Suc n) Primary_expr s = Some out \<Longrightarrow> pos s \<le> length (tokens s) \<Longrightarrow> cp_pre Primary_expr s \<Longrightarrow> cp_good Primary_expr s out"
  by (auto simp: cp_good_def cp_pre_def cp_stmt_def cp_fail_def ret_expect_def body_rule_def split_beta elim!: cp_thenE dest!: cp_soundD split: option.splits if_splits)

lemma cp_step_If_statement:
  "cp_sound n \<Longrightarrow> cp_exec (Suc n) If_statement s = Some out \<Longrightarrow> pos s \<le> length (tokens s) \<Longrightarrow> cp_pre If_statement s \<Longrightarrow> cp_good If_statement s out"
  by (auto simp: cp_good_def cp_pre_def cp_stmt_def cp_fail_def ret_expect_def body_rule_def split_beta elim!: cp_thenE dest!: cp_soundD split: option.splits if_splits)

lemma cp_step_While_statement:
  "cp_sound n \<Longrightarrow> cp_exec (Suc n) While_statement s = Some out \<Longrightarrow> pos s \<le> length (tokens s) \<Longrightarrow> cp_pre While_statement s \<Longrightarrow> cp_good While_statement s out"
  by (auto simp: cp_good_def cp_pre_def cp_stmt_def cp_fail_def ret_expect_def body_rule_def split_beta elim!: cp_thenE dest!: cp_soundD split: option.splits if_splits)

lemma cp_step_Return_statement:
  "cp_sound n \<Longrightarrow> cp_exec (Suc n) Return_statement s = Some out \<Longrightarrow> pos s \<le> length (tokens s) \<Longrightarrow> cp_pre Return_statement s \<Longrightarrow> cp_good Return_statement s out"
  by (auto simp: cp_good_def cp_pre_def cp_stmt_def cp_fail_def ret_expect_def body_rule_def split_beta elim!: cp_thenE dest!: cp_soundD split: option.splits if_splits)

definition follows :: "pstate \<Rightarrow> pstate \<Rightarrow> bool" where
  "follows s s' \<longleftrightarrow> tokens s' = tokens s \<and> pos s \<le> pos s' \<and> pos s' \<le> length (tokens s)
     \<and> length (errors s) \<le> length (errors s')"

lemma cp_then_followsE:
  assumes "cp_then m f = Some out"
    and "\<And>x. m = Some x \<Longrightarrow> \<exists>b s1. x = Return b s1 \<and> follows s0 s1"
    and "\<And>b s1. follows s0 s1 \<Longrightarrow> f b s1 = Some out \<Longrightarrow> R"
  shows R
  using assms by (auto simp: cp_then_def split: option.splits cp_result.splits)

lemma cp_opt_expression:
  assumes "(if c then cp_exec n Expression s else ret True s) = Some out"
    and "cp_sound n" and "pos s \<le> length (tokens s)"
  shows "\<exists>b s'. out = Return b s' \<and> follows s s'"
  using assms
  by (auto dest!: cp_soundD simp: follows_def cp_pre_def cp_stmt_def cp_fail_def split: if_splits)

lemma cp_for_init:
  assumes "(if c then cp_exec n Assign s
            else cp_then (cp_exec n Expression s) (\<lambda>_ s2. ret True (snd (expect_special s2 '';'')))) = Some out"
    and "cp_sound n" and "pos s \<le> length (tokens s)" and "c \<Longrightarrow> pos s < length (tokens s)"
  shows "\<exists>b s'. out = Return b s' \<and> follows s s'"
proof (cases c)
  case True
  with assms show ?thesis
    by (auto dest!: cp_soundD simp: follows_def cp_pre_def cp_stmt_def cp_fail_def)
next
  case False
  with assms show ?thesis
    by (auto elim!: cp_thenE dest!: cp_soundD simp: follows_def cp_pre_def cp_stmt_def cp_fail_def)
qed

lemma cp_for_body:
  assumes "cp_then (cp_exec n (body_rule s) s) (\<lambda>_ s6. ret True s6) = Some out"
    and "cp_sound n" and "pos s \<le> length (tokens s)"
  shows "\<exists>s'. out = Return True s' \<and> follows s s'"
  using assms
  by (auto elim!: cp_thenE dest!: cp_soundD
        simp: follows_def cp_pre_def cp_stmt_def cp_fail_def body_rule_def split: if_splits)

lemma cp_for_tail:
  assumes "(if \<not> fst (expect_special s '')'') then ret False (snd (expect_special s '')''))
            else cp_then (cp_exec n (body_rule (snd (expect_special s '')''))) (snd (expect_special s '')'')))
                   (\<lambda>_ s6. ret True s6)) = Some out"
    and "cp_sound n" and "pos s \<le> length (tokens s)"
  shows "\<exists>b s'. out = Return b s' \<and> follows s s'"
proof (cases "fst (expect_special s '')'')")
  case False
  with assms show ?thesis by (auto simp: follows_def)
next
  case True
  with assms(1) have "cp_then (cp_exec n (body_rule (snd (expect_special s '')''))) (snd (expect_special s '')'')))
                   (\<lambda>_ s6. ret True s6) = Some out" by simp
  from cp_for_body [OF this assms(2)] True assms(3) show ?thesis
    by (auto simp: follows_def)
qed

lemma cp_step_For_statement:
  assumes "cp_sound n" and "cp_exec (Suc n) For_statement s = Some out"
    and "pos s \<le> length (tokens s)" and "cp_pre For_statement s"
  shows "cp_good For_statement s out"
proof (cases "fst (expect_special (pos_inc s) ''('')")
  case False
  with assms show ?thesis
    by (auto simp: split_beta cp_good_def cp_stmt_def cp_fail_def cp_pre_def)
next
  case True
  from assms(4) have lt: "pos s < length (tokens s)" by (simp add: cp_pre_def)
  define s1 where "s1 = snd (expect_special (pos_inc s) ''('')"
  have s1: "tokens s1 = tokens s" "Suc (Suc (pos s)) = pos s1" "pos s1 \<le> length (tokens s)"
    "length (errors s) = length (errors s1)"
    using True lt by (simp_all add: s1_def)
  have final: "cp_good For_statement s out"
    if "follows s1 s2" "follows s2 s3" "follows (snd (expect_special s3 '';'')) s4"
      "\<exists>b s'. out = Return b s' \<and> follows s4 s'" for s2 s3 s4
    using that s1 by (auto simp: follows_def cp_good_def cp_stmt_def cp_fail_def split: if_splits)
  show ?thesis using assms(2)
    apply (simp only: cp_exec.simps split_beta True not_True_eq_False if_False)
    apply (fold s1_def)
    apply (erule cp_then_followsE [where ?s0.0 = s1])
     apply (erule cp_for_init [OF _ assms(1)])
      apply (simp add: s1)
     apply (simp add: s1 split: option.splits)
    apply (erule cp_then_followsE)
     apply (erule cp_opt_expression [OF _ assms(1)])
     apply (simp add: follows_def s1)
    apply (erule cp_then_followsE)
     apply (erule cp_opt_expression [OF _ assms(1)])
     apply (simp add: follows_def s1)
    apply (drule cp_for_tail [OF _ assms(1)])
     apply (simp add: follows_def s1)
    apply (erule (3) final)
    done
qed

lemma cp_exec_sound: "cp_sound n"
proof (induction n)
  case 0
  show ?case by (simp add: cp_sound_def)
next
  case (Suc n)
  show ?case
    unfolding cp_sound_def
  proof (intro allI impI)
    fix r s out
    assume "cp_exec (Suc n) r s = Some out" "pos s \<le> length (tokens s)" "cp_pre r s"
    with Suc show "cp_good r s out"
      by (cases r) (blast intro: cp_step_Global_declaration cp_step_Global_variable cp_step_Global_variable_loop cp_step_Func cp_step_Block cp_step_Block_loop cp_step_X cp_step_Assign cp_step_Assign_loop cp_step_Expression_statement cp_step_Expression cp_step_Logical_or_expr cp_step_Logical_or_loop cp_step_Logical_and_expr cp_step_Logical_and_loop cp_step_Equality_expr cp_step_Equality_loop cp_step_Relational_expr cp_step_Relational_loop cp_step_Additive_expr cp_step_Additive_loop cp_step_Multiplicative_expr cp_step_Multiplicative_loop cp_step_Unary_expr cp_step_Postfix_expr cp_step_Postfix_loop cp_step_Argument_list cp_step_Argument_loop cp_step_Primary_expr cp_step_If_statement cp_step_While_statement cp_step_For_statement cp_step_Return_statement)+
  qed
qed

lemma cp_exec_inv:
  "cp_exec n r s = Some out \<Longrightarrow> pos s \<le> length (tokens s) \<Longrightarrow> cp_pre r s \<Longrightarrow>
    \<exists>b s'. out = Return b s' \<and> tokens s' = tokens s
          \<and> pos s + of_bool (r \<in> cp_stmt \<and> b) \<le> pos s'
          \<and> pos s' \<le> length (tokens s)
          \<and> length (errors s) + of_bool (r \<in> cp_fail \<and> \<not> b) \<le> length (errors s')"
  using cp_soundD [OF _ cp_exec_sound] .


fun cp_rank :: "cp_rule \<Rightarrow> nat" where
"cp_rank Global_declaration = 1"
| "cp_rank Global_variable = 0"
| "cp_rank Global_variable_loop = 0"
| "cp_rank Func = 0"
| "cp_rank Block = 0"
| "cp_rank Block_loop = 12"
| "cp_rank X = 11"
| "cp_rank Assign = 0"
| "cp_rank Assign_loop = 0"
| "cp_rank Expression_statement = 10"
| "cp_rank Expression = 9"
| "cp_rank Logical_or_expr = 8"
| "cp_rank Logical_or_loop = 0"
| "cp_rank Logical_and_expr = 7"
| "cp_rank Logical_and_loop = 0"
| "cp_rank Equality_expr = 6"
| "cp_rank Equality_loop = 0"
| "cp_rank Relational_expr = 5"
| "cp_rank Relational_loop = 0"
| "cp_rank Additive_expr = 4"
| "cp_rank Additive_loop = 0"
| "cp_rank Multiplicative_expr = 3"
| "cp_rank Multiplicative_loop = 0"
| "cp_rank Unary_expr = 2"
| "cp_rank Postfix_expr = 1"
| "cp_rank Postfix_loop = 0"
| "cp_rank Argument_list = 10"
| "cp_rank Argument_loop = 0"
| "cp_rank Primary_expr = 0"
| "cp_rank If_statement = 0"
| "cp_rank While_statement = 0"
| "cp_rank For_statement = 0"
| "cp_rank Return_statement = 0"

definition cp_enough :: "nat \<Rightarrow> cp_rule \<Rightarrow> pstate \<Rightarrow> bool" where
  "cp_enough n r s \<longleftrightarrow> length (tokens s) * 16 + cp_rank r < n + pos s * 16"

definition cp_total :: "nat \<Rightarrow> bool" where
  "cp_total n \<longleftrightarrow>
     (\<forall>r s. pos s \<le> length (tokens s) \<longrightarrow> cp_pre r s \<longrightarrow> cp_enough n r s \<longrightarrow> cp_exec n r s \<noteq> None)"

lemma cp_total_NoneD:
  "cp_exec n r s = None \<Longrightarrow> cp_total n \<Longrightarrow> pos s \<le> length (tokens s) \<Longrightarrow> cp_pre r s \<Longrightarrow>
     \<not> length (tokens s) * 16 + cp_rank r < n + pos s * 16"
  unfolding cp_total_def cp_enough_def by blast

lemma cp_then_NoneE:
  assumes "cp_then m f = None"
  obtains "m = None" | b s where "m = Some (Return b s)" "f b s = None"
  using assms by (auto simp: cp_then_def split: option.splits cp_result.splits)

lemma cp_run_Global_declaration:
  "cp_total n \<Longrightarrow> cp_exec (Suc n) Global_declaration s = None \<Longrightarrow> pos s \<le> length (tokens s) \<Longrightarrow> cp_pre Global_declaration s \<Longrightarrow> cp_enough (Suc n) Global_declaration s \<Longrightarrow> False"
  by (auto simp: cp_enough_def cp_pre_def cp_stmt_def cp_fail_def ret_expect_def body_rule_def split_beta elim!: cp_then_NoneE dest!: cp_total_NoneD cp_exec_inv split: option.splits if_splits)

lemma cp_run_Global_variable:
  "cp_total n \<Longrightarrow> cp_exec (Suc n) Global_variable s = None \<Longrightarrow> pos s \<le> length (tokens s) \<Longrightarrow> cp_pre Global_variable s \<Longrightarrow> cp_enough (Suc n) Global_variable s \<Longrightarrow> False"
  by (auto simp: cp_enough_def cp_pre_def cp_stmt_def cp_fail_def ret_expect_def body_rule_def split_beta elim!: cp_then_NoneE dest!: cp_total_NoneD cp_exec_inv split: option.splits if_splits)

lemma cp_run_Global_variable_loop:
  "cp_total n \<Longrightarrow> cp_exec (Suc n) Global_variable_loop s = None \<Longrightarrow> pos s \<le> length (tokens s) \<Longrightarrow> cp_pre Global_variable_loop s \<Longrightarrow> cp_enough (Suc n) Global_variable_loop s \<Longrightarrow> False"
  by (auto simp: cp_enough_def cp_pre_def cp_stmt_def cp_fail_def ret_expect_def body_rule_def split_beta elim!: cp_then_NoneE dest!: cp_total_NoneD cp_exec_inv split: option.splits if_splits)

lemma cp_run_Func:
  "cp_total n \<Longrightarrow> cp_exec (Suc n) Func s = None \<Longrightarrow> pos s \<le> length (tokens s) \<Longrightarrow> cp_pre Func s \<Longrightarrow> cp_enough (Suc n) Func s \<Longrightarrow> False"
  by (auto simp: cp_enough_def cp_pre_def cp_stmt_def cp_fail_def ret_expect_def body_rule_def split_beta elim!: cp_then_NoneE dest!: cp_total_NoneD cp_exec_inv split: option.splits if_splits)

lemma cp_run_Block:
  "cp_total n \<Longrightarrow> cp_exec (Suc n) Block s = None \<Longrightarrow> pos s \<le> length (tokens s) \<Longrightarrow> cp_pre Block s \<Longrightarrow> cp_enough (Suc n) Block s \<Longrightarrow> False"
  by (auto simp: cp_enough_def cp_pre_def cp_stmt_def cp_fail_def ret_expect_def body_rule_def split_beta elim!: cp_then_NoneE dest!: cp_total_NoneD cp_exec_inv split: option.splits if_splits)

lemma cp_run_Block_loop:
  "cp_total n \<Longrightarrow> cp_exec (Suc n) Block_loop s = None \<Longrightarrow> pos s \<le> length (tokens s) \<Longrightarrow> cp_pre Block_loop s \<Longrightarrow> cp_enough (Suc n) Block_loop s \<Longrightarrow> False"
  by (auto simp: cp_enough_def cp_pre_def cp_stmt_def cp_fail_def ret_expect_def body_rule_def split_beta elim!: cp_then_NoneE dest!: cp_total_NoneD cp_exec_inv split: option.splits if_splits)

lemma cp_run_X:
  "cp_total n \<Longrightarrow> cp_exec (Suc n) X s = None \<Longrightarrow> pos s \<le> length (tokens s) \<Longrightarrow> cp_pre X s \<Longrightarrow> cp_enough (Suc n) X s \<Longrightarrow> False"
  by (auto simp: cp_enough_def cp_pre_def cp_stmt_def cp_fail_def ret_expect_def body_rule_def split_beta elim!: cp_then_NoneE dest!: cp_total_NoneD cp_exec_inv split: option.splits if_splits)

lemma cp_run_Assign:
  "cp_total n \<Longrightarrow> cp_exec (Suc n) Assign s = None \<Longrightarrow> pos s \<le> length (tokens s) \<Longrightarrow> cp_pre Assign s \<Longrightarrow> cp_enough (Suc n) Assign s \<Longrightarrow> False"
  by (auto simp: cp_enough_def cp_pre_def cp_stmt_def cp_fail_def ret_expect_def body_rule_def split_beta elim!: cp_then_NoneE dest!: cp_total_NoneD cp_exec_inv split: option.splits if_splits)

lemma cp_run_Assign_loop:
  "cp_total n \<Longrightarrow> cp_exec (Suc n) Assign_loop s = None \<Longrightarrow> pos s \<le> length (tokens s) \<Longrightarrow> cp_pre Assign_loop s \<Longrightarrow> cp_enough (Suc n) Assign_loop s \<Longrightarrow> False"
  by (auto simp: cp_enough_def cp_pre_def cp_stmt_def cp_fail_def ret_expect_def body_rule_def split_beta elim!: cp_then_NoneE dest!: cp_total_NoneD cp_exec_inv split: option.splits if_splits)

lemma cp_run_Expression_statement:
  "cp_total n \<Longrightarrow> cp_exec (Suc n) Expression_statement s = None \<Longrightarrow> pos s \<le> length (tokens s) \<Longrightarrow> cp_pre Expression_statement s \<Longrightarrow> cp_enough (Suc n) Expression_statement s \<Longrightarrow> False"
  by (auto simp: cp_enough_def cp_pre_def cp_stmt_def cp_fail_def ret_expect_def body_rule_def split_beta elim!: cp_then_NoneE dest!: cp_total_NoneD cp_exec_inv split: option.splits if_splits)

lemma cp_run_Expression:
  "cp_total n \<Longrightarrow> cp_exec (Suc n) Expression s = None \<Longrightarrow> pos s \<le> length (tokens s) \<Longrightarrow> cp_pre Expression s \<Longrightarrow> cp_enough (Suc n) Expression s \<Longrightarrow> False"
  by (auto simp: cp_enough_def cp_pre_def cp_stmt_def cp_fail_def ret_expect_def body_rule_def split_beta elim!: cp_then_NoneE dest!: cp_total_NoneD cp_exec_inv split: option.splits if_splits)

lemma cp_run_Logical_or_expr:
  "cp_total n \<Longrightarrow> cp_exec (Suc n) Logical_or_expr s = None \<Longrightarrow> pos s \<le> length (tokens s) \<Longrightarrow> cp_pre Logical_or_expr s \<Longrightarrow> cp_enough (Suc n) Logical_or_expr s \<Longrightarrow> False"
  by (auto simp: cp_enough_def cp_pre_def cp_stmt_def cp_fail_def ret_expect_def body_rule_def split_beta elim!: cp_then_NoneE dest!: cp_total_NoneD cp_exec_inv split: option.splits if_splits)

lemma cp_run_Logical_or_loop:
  "cp_total n \<Longrightarrow> cp_exec (Suc n) Logical_or_loop s = None \<Longrightarrow> pos s \<le> length (tokens s) \<Longrightarrow> cp_pre Logical_or_loop s \<Longrightarrow> cp_enough (Suc n) Logical_or_loop s \<Longrightarrow> False"
  by (auto simp: cp_enough_def cp_pre_def cp_stmt_def cp_fail_def ret_expect_def body_rule_def split_beta elim!: cp_then_NoneE dest!: cp_total_NoneD cp_exec_inv split: option.splits if_splits)

lemma cp_run_Logical_and_expr:
  "cp_total n \<Longrightarrow> cp_exec (Suc n) Logical_and_expr s = None \<Longrightarrow> pos s \<le> length (tokens s) \<Longrightarrow> cp_pre Logical_and_expr s \<Longrightarrow> cp_enough (Suc n) Logical_and_expr s \<Longrightarrow> False"
  by (auto simp: cp_enough_def cp_pre_def cp_stmt_def cp_fail_def ret_expect_def body_rule_def split_beta elim!: cp_then_NoneE dest!: cp_total_NoneD cp_exec_inv split: option.splits if_splits)

lemma cp_run_Logical_and_loop:
  "cp_total n \<Longrightarrow> cp_exec (Suc n) Logical_and_loop s = None \<Longrightarrow> pos s \<le> length (tokens s) \<Longrightarrow> cp_pre Logical_and_loop s \<Longrightarrow> cp_enough (Suc n) Logical_and_loop s \<Longrightarrow> False"
  by (auto simp: cp_enough_def cp_pre_def cp_stmt_def cp_fail_def ret_expect_def body_rule_def split_beta elim!: cp_then_NoneE dest!: cp_total_NoneD cp_exec_inv split: option.splits if_splits)

lemma cp_run_Equality_expr:
  "cp_total n \<Longrightarrow> cp_exec (Suc n) Equality_expr s = None \<Longrightarrow> pos s \<le> length (tokens s) \<Longrightarrow> cp_pre Equality_expr s \<Longrightarrow> cp_enough (Suc n) Equality_expr s \<Longrightarrow> False"
  by (auto simp: cp_enough_def cp_pre_def cp_stmt_def cp_fail_def ret_expect_def body_rule_def split_beta elim!: cp_then_NoneE dest!: cp_total_NoneD cp_exec_inv split: option.splits if_splits)

lemma cp_run_Equality_loop:
  "cp_total n \<Longrightarrow> cp_exec (Suc n) Equality_loop s = None \<Longrightarrow> pos s \<le> length (tokens s) \<Longrightarrow> cp_pre Equality_loop s \<Longrightarrow> cp_enough (Suc n) Equality_loop s \<Longrightarrow> False"
  by (auto simp: cp_enough_def cp_pre_def cp_stmt_def cp_fail_def ret_expect_def body_rule_def split_beta elim!: cp_then_NoneE dest!: cp_total_NoneD cp_exec_inv split: option.splits if_splits)

lemma cp_run_Relational_expr:
  "cp_total n \<Longrightarrow> cp_exec (Suc n) Relational_expr s = None \<Longrightarrow> pos s \<le> length (tokens s) \<Longrightarrow> cp_pre Relational_expr s \<Longrightarrow> cp_enough (Suc n) Relational_expr s \<Longrightarrow> False"
  by (auto simp: cp_enough_def cp_pre_def cp_stmt_def cp_fail_def ret_expect_def body_rule_def split_beta elim!: cp_then_NoneE dest!: cp_total_NoneD cp_exec_inv split: option.splits if_splits)

lemma cp_run_Relational_loop:
  "cp_total n \<Longrightarrow> cp_exec (Suc n) Relational_loop s = None \<Longrightarrow> pos s \<le> length (tokens s) \<Longrightarrow> cp_pre Relational_loop s \<Longrightarrow> cp_enough (Suc n) Relational_loop s \<Longrightarrow> False"
  by (auto simp: cp_enough_def cp_pre_def cp_stmt_def cp_fail_def ret_expect_def body_rule_def split_beta elim!: cp_then_NoneE dest!: cp_total_NoneD cp_exec_inv split: option.splits if_splits)

lemma cp_run_Additive_expr:
  "cp_total n \<Longrightarrow> cp_exec (Suc n) Additive_expr s = None \<Longrightarrow> pos s \<le> length (tokens s) \<Longrightarrow> cp_pre Additive_expr s \<Longrightarrow> cp_enough (Suc n) Additive_expr s \<Longrightarrow> False"
  by (auto simp: cp_enough_def cp_pre_def cp_stmt_def cp_fail_def ret_expect_def body_rule_def split_beta elim!: cp_then_NoneE dest!: cp_total_NoneD cp_exec_inv split: option.splits if_splits)

lemma cp_run_Additive_loop:
  "cp_total n \<Longrightarrow> cp_exec (Suc n) Additive_loop s = None \<Longrightarrow> pos s \<le> length (tokens s) \<Longrightarrow> cp_pre Additive_loop s \<Longrightarrow> cp_enough (Suc n) Additive_loop s \<Longrightarrow> False"
  by (auto simp: cp_enough_def cp_pre_def cp_stmt_def cp_fail_def ret_expect_def body_rule_def split_beta elim!: cp_then_NoneE dest!: cp_total_NoneD cp_exec_inv split: option.splits if_splits)

lemma cp_run_Multiplicative_expr:
  "cp_total n \<Longrightarrow> cp_exec (Suc n) Multiplicative_expr s = None \<Longrightarrow> pos s \<le> length (tokens s) \<Longrightarrow> cp_pre Multiplicative_expr s \<Longrightarrow> cp_enough (Suc n) Multiplicative_expr s \<Longrightarrow> False"
  by (auto simp: cp_enough_def cp_pre_def cp_stmt_def cp_fail_def ret_expect_def body_rule_def split_beta elim!: cp_then_NoneE dest!: cp_total_NoneD cp_exec_inv split: option.splits if_splits)

lemma cp_run_Multiplicative_loop:
  "cp_total n \<Longrightarrow> cp_exec (Suc n) Multiplicative_loop s = None \<Longrightarrow> pos s \<le> length (tokens s) \<Longrightarrow> cp_pre Multiplicative_loop s \<Longrightarrow> cp_enough (Suc n) Multiplicative_loop s \<Longrightarrow> False"
  by (auto simp: cp_enough_def cp_pre_def cp_stmt_def cp_fail_def ret_expect_def body_rule_def split_beta elim!: cp_then_NoneE dest!: cp_total_NoneD cp_exec_inv split: option.splits if_splits)

lemma cp_run_Unary_expr:
  "cp_total n \<Longrightarrow> cp_exec (Suc n) Unary_expr s = None \<Longrightarrow> pos s \<le> length (tokens s) \<Longrightarrow> cp_pre Unary_expr s \<Longrightarrow> cp_enough (Suc n) Unary_expr s \<Longrightarrow> False"
  by (auto simp: cp_enough_def cp_pre_def cp_stmt_def cp_fail_def ret_expect_def body_rule_def split_beta elim!: cp_then_NoneE dest!: cp_total_NoneD cp_exec_inv split: option.splits if_splits)

lemma cp_run_Postfix_expr:
  "cp_total n \<Longrightarrow> cp_exec (Suc n) Postfix_expr s = None \<Longrightarrow> pos s \<le> length (tokens s) \<Longrightarrow> cp_pre Postfix_expr s \<Longrightarrow> cp_enough (Suc n) Postfix_expr s \<Longrightarrow> False"
  by (auto simp: cp_enough_def cp_pre_def cp_stmt_def cp_fail_def ret_expect_def body_rule_def split_beta elim!: cp_then_NoneE dest!: cp_total_NoneD cp_exec_inv split: option.splits if_splits)

lemma cp_run_Postfix_loop:
  "cp_total n \<Longrightarrow> cp_exec (Suc n) Postfix_loop s = None \<Longrightarrow> pos s \<le> length (tokens s) \<Longrightarrow> cp_pre Postfix_loop s \<Longrightarrow> cp_enough (Suc n) Postfix_loop s \<Longrightarrow> False"
  by (auto simp: cp_enough_def cp_pre_def cp_stmt_def cp_fail_def ret_expect_def body_rule_def split_beta elim!: cp_then_NoneE dest!: cp_total_NoneD cp_exec_inv split: option.splits if_splits)

lemma cp_run_Argument_list:
  "cp_total n \<Longrightarrow> cp_exec (Suc n) Argument_list s = None \<Longrightarrow> pos s \<le> length (tokens s) \<Longrightarrow> cp_pre Argument_list s \<Longrightarrow> cp_enough (Suc n) Argument_list s \<Longrightarrow> False"
  by (auto simp: cp_enough_def cp_pre_def cp_stmt_def cp_fail_def ret_expect_def body_rule_def split_beta elim!: cp_then_NoneE dest!: cp_total_NoneD cp_exec_inv split: option.splits if_splits)

lemma cp_run_Argument_loop:
  "cp_total n \<Longrightarrow> cp_exec (Suc n) Argument_loop s = None \<Longrightarrow> pos s \<le> length (tokens s) \<Longrightarrow> cp_pre Argument_loop s \<Longrightarrow> cp_enough (Suc n) Argument_loop s \<Longrightarrow> False"
  by (auto simp: cp_enough_def cp_pre_def cp_stmt_def cp_fail_def ret_expect_def body_rule_def split_beta elim!: cp_then_NoneE dest!: cp_total_NoneD cp_exec_inv split: option.splits if_splits)

lemma cp_run_Primary_expr:
  "cp_total n \<Longrightarrow> cp_exec (Suc n) Primary_expr s = None \<Longrightarrow> pos s \<le> length (tokens s) \<Longrightarrow> cp_pre Primary_expr s \<Longrightarrow> cp_enough (Suc n) Primary_expr s \<Longrightarrow> False"
  by (auto simp: cp_enough_def cp_pre_def cp_stmt_def cp_fail_def ret_expect_def body_rule_def split_beta elim!: cp_then_NoneE dest!: cp_total_NoneD cp_exec_inv split: option.splits if_splits)

lemma cp_run_If_statement:
  "cp_total n \<Longrightarrow> cp_exec (Suc n) If_statement s = None \<Longrightarrow> pos s \<le> length (tokens s) \<Longrightarrow> cp_pre If_statement s \<Longrightarrow> cp_enough (Suc n) If_statement s \<Longrightarrow> False"
  by (auto simp: cp_enough_def cp_pre_def cp_stmt_def cp_fail_def ret_expect_def body_rule_def split_beta elim!: cp_then_NoneE dest!: cp_total_NoneD cp_exec_inv split: option.splits if_splits)

lemma cp_run_While_statement:
  "cp_total n \<Longrightarrow> cp_exec (Suc n) While_statement s = None \<Longrightarrow> pos s \<le> length (tokens s) \<Longrightarrow> cp_pre While_statement s \<Longrightarrow> cp_enough (Suc n) While_statement s \<Longrightarrow> False"
  by (auto simp: cp_enough_def cp_pre_def cp_stmt_def cp_fail_def ret_expect_def body_rule_def split_beta elim!: cp_then_NoneE dest!: cp_total_NoneD cp_exec_inv split: option.splits if_splits)

lemma cp_then_None_followsE:
  assumes "cp_then m f = None"
    and "m = None \<Longrightarrow> False"
    and "\<And>x. m = Some x \<Longrightarrow> \<exists>b s1. x = Return b s1 \<and> follows s0 s1"
    and "\<And>b s1. follows s0 s1 \<Longrightarrow> f b s1 = None \<Longrightarrow> R"
  shows R
  using assms by (auto simp: cp_then_def split: option.splits cp_result.splits)

lemma cp_opt_expression_run:
  assumes "(if c then cp_exec n Expression s else ret True s) = None"
    and "cp_total n" and "pos s \<le> length (tokens s)"
    and "length (tokens s) * 16 + 15 < n + pos s * 16"
  shows False
  using assms by (auto dest!: cp_total_NoneD simp: cp_pre_def split: if_splits)

lemma cp_for_init_run:
  assumes "(if c then cp_exec n Assign s
            else cp_then (cp_exec n Expression s) (\<lambda>_ s2. ret True (snd (expect_special s2 '';'')))) = None"
    and "cp_total n" and "pos s \<le> length (tokens s)" and "c \<Longrightarrow> pos s < length (tokens s)"
    and "length (tokens s) * 16 + 15 < n + pos s * 16"
  shows False
  using assms
  by (cases c) (auto elim!: cp_then_NoneE dest!: cp_total_NoneD simp: cp_pre_def)

lemma cp_for_tail_run:
  assumes "(if \<not> fst (expect_special s '')'') then ret False (snd (expect_special s '')''))
            else cp_then (cp_exec n (body_rule (snd (expect_special s '')''))) (snd (expect_special s '')'')))
                   (\<lambda>_ s6. ret True s6)) = None"
    and "cp_total n" and "pos s \<le> length (tokens s)"
    and "length (tokens s) * 16 + 15 < n + pos s * 16"
  shows False
  using assms
  by (cases "fst (expect_special s '')'')")
     (auto elim!: cp_then_NoneE dest!: cp_total_NoneD simp: cp_pre_def body_rule_def split: if_splits)

lemma cp_run_For_statement:
  assumes "cp_total n" and "cp_exec (Suc n) For_statement s = None"
    and "pos s \<le> length (tokens s)" and "cp_pre For_statement s"
    and "cp_enough (Suc n) For_statement s"
  shows False
proof (cases "fst (expect_special (pos_inc s) ''('')")
  case False
  with assms(2) show ?thesis by (simp add: split_beta)
next
  case True
  define s1 where "s1 = snd (expect_special (pos_inc s) ''('')"
  have s1: "tokens s1 = tokens s" "Suc (Suc (pos s)) = pos s1" "pos s1 \<le> length (tokens s)"
    using True by (simp_all add: s1_def)
  from assms(5) have fuel: "length (tokens s) * 16 \<le> n + pos s * 16"
    by (simp add: cp_enough_def)
  note inv = cp_exec_sound [of n]
  show ?thesis using assms(2)
    apply (simp only: cp_exec.simps split_beta True not_True_eq_False if_False)
    apply (fold s1_def)
    apply (erule cp_then_None_followsE [where ?s0.0 = s1])
      apply (erule cp_for_init_run [OF _ assms(1)])
        apply (simp add: s1)
       apply (simp add: s1 split: option.splits)
      using fuel s1 apply simp
     apply (erule cp_for_init [OF _ inv])
      apply (simp add: s1)
     apply (simp add: s1 split: option.splits)
    apply (erule cp_then_None_followsE)
      apply (erule cp_opt_expression_run [OF _ assms(1)])
       apply (simp add: follows_def s1)
      using fuel s1 apply (simp add: follows_def)
     apply (erule cp_opt_expression [OF _ inv])
     apply (simp add: follows_def s1)
    apply (erule cp_then_None_followsE)
      apply (erule cp_opt_expression_run [OF _ assms(1)])
       apply (simp add: follows_def s1)
      using fuel s1 apply (simp add: follows_def)
     apply (erule cp_opt_expression [OF _ inv])
     apply (simp add: follows_def s1)
    apply (erule cp_for_tail_run [OF _ assms(1)])
     apply (simp add: follows_def s1)
    using fuel s1 apply (auto simp: follows_def split: if_splits)
    done
qed

lemma cp_run_Return_statement:
  "cp_total n \<Longrightarrow> cp_exec (Suc n) Return_statement s = None \<Longrightarrow> pos s \<le> length (tokens s) \<Longrightarrow> cp_pre Return_statement s \<Longrightarrow> cp_enough (Suc n) Return_statement s \<Longrightarrow> False"
  by (auto simp: cp_enough_def cp_pre_def cp_stmt_def cp_fail_def ret_expect_def body_rule_def split_beta elim!: cp_then_NoneE dest!: cp_total_NoneD cp_exec_inv split: option.splits if_splits)


lemma cp_exec_total: "cp_total n"
proof (induction n)
  case 0
  show ?case by (simp add: cp_total_def cp_enough_def)
next
  case (Suc n)
  show ?case
    unfolding cp_total_def
  proof (intro allI impI notI)
    fix r s
    assume "pos s \<le> length (tokens s)" "cp_pre r s" "cp_enough (Suc n) r s" "cp_exec (Suc n) r s = None"
    with Suc show False
      by (cases r) (blast intro: cp_run_Global_declaration cp_run_Global_variable cp_run_Global_variable_loop cp_run_Func cp_run_Block cp_run_Block_loop cp_run_X cp_run_Assign cp_run_Assign_loop cp_run_Expression_statement cp_run_Expression cp_run_Logical_or_expr cp_run_Logical_or_loop cp_run_Logical_and_expr cp_run_Logical_and_loop cp_run_Equality_expr cp_run_Equality_loop cp_run_Relational_expr cp_run_Relational_loop cp_run_Additive_expr cp_run_Additive_loop cp_run_Multiplicative_expr cp_run_Multiplicative_loop cp_run_Unary_expr cp_run_Postfix_expr cp_run_Postfix_loop cp_run_Argument_list cp_run_Argument_loop cp_run_Primary_expr cp_run_If_statement cp_run_While_statement cp_run_For_statement cp_run_Return_statement)+
  qed
qed

lemma cp_exec_returns:
  assumes "pos s \<le> length (tokens s)" and "cp_pre r s" and "cp_enough n r s"
  shows "\<exists>b s'. cp_exec n r s = Some (Return b s') \<and> tokens s' = tokens s
          \<and> pos s + of_bool (r \<in> cp_stmt \<and> b) \<le> pos s'
          \<and> pos s' \<le> length (tokens s)
          \<and> length (errors s) + of_bool (r \<in> cp_fail \<and> \<not> b) \<le> length (errors s')"
proof -
  from cp_exec_total [of n] assms obtain out where out: "cp_exec n r s = Some out"
    unfolding cp_total_def by blast
  from cp_exec_inv [OF out assms(1,2)] out show ?thesis by blast
qed

lemma program_inv:
  "program n s = Some out \<Longrightarrow> pos s \<le> length (tokens s) \<Longrightarrow>
     \<exists>s'. out = Inr s' \<and> tokens s' = tokens s \<and> pos s \<le> pos s' \<and> pos s' \<le> length (tokens s)
        \<and> length (errors s) \<le> length (errors s')
        \<and> (length (errors s') = length (errors s) \<longrightarrow> current_token s' = None)"
proof (induction n arbitrary: s)
  case 0
  then show ?case by simp
next
  case (Suc n)
  show ?case
  proof (cases "current_token s")
    case None
    with Suc.prems show ?thesis by auto
  next
    case (Some t)
    then have lt: "pos s < length (tokens s)" by simp
    then have pre: "cp_pre Global_declaration s" by (simp add: cp_pre_def)
    from Suc.prems(1) Some obtain x where x: "cp_exec n Global_declaration s = Some x"
      by (auto split: option.splits)
    from cp_exec_inv [OF x Suc.prems(2) pre] obtain b s1 where
      r: "x = Return b s1" "tokens s1 = tokens s" "pos s + of_bool b \<le> pos s1"
        "pos s1 \<le> length (tokens s)" "length (errors s) + of_bool (\<not> b) \<le> length (errors s1)"
      by (auto simp: cp_stmt_def cp_fail_def)
    show ?thesis
    proof (cases b)
      case False
      with Suc.prems(1) Some x r show ?thesis by auto
    next
      case True
      with Suc.prems(1) Some x r have "program n s1 = Some out" by simp
      from Suc.IH [OF this] r True show ?thesis by auto
    qed
  qed
qed

lemma program_returns:
  "pos s \<le> length (tokens s) \<Longrightarrow> length (tokens s) * 16 + 2 < n + pos s * 16 \<Longrightarrow>
     \<exists>s'. program n s = Some (Inr s')"
proof (induction n arbitrary: s)
  case 0
  then show ?case by simp
next
  case (Suc n)
  show ?case
  proof (cases "current_token s")
    case None
    then show ?thesis by (simp add: current_token_def)
  next
    case (Some t)
    then have lt: "pos s < length (tokens s)" by simp
    then have pre: "cp_pre Global_declaration s" by (simp add: cp_pre_def)
    from Suc.prems(2) have "cp_enough n Global_declaration s" by (simp add: cp_enough_def)
    from cp_exec_returns [OF Suc.prems(1) pre this] obtain b s1 where
      r: "cp_exec n Global_declaration s = Some (Return b s1)" "tokens s1 = tokens s"
        "pos s + of_bool b \<le> pos s1" "pos s1 \<le> length (tokens s)"
      by (auto simp: cp_stmt_def)
    show ?thesis
    proof (cases b)
      case False
      with lt r show ?thesis by (simp add: current_token_def)
    next
      case True
      with r Suc.prems(2) have "pos s1 \<le> length (tokens s1)"
        "length (tokens s1) * 16 + 2 < n + pos s1 * 16" by auto
      from Suc.IH [OF this] True lt r show ?thesis by (simp add: current_token_def)
    qed
  qed
qed

definition cp_budget :: "token list \<Rightarrow> nat" where
  "cp_budget ts = 16 * length ts + 16"

lemma cp_parse_returns: "\<exists>ok s. cp_parse (cp_budget ts) ts = Some (ok, s)"
proof -
  have "\<exists>s'. program (cp_budget ts) (init ts) = Some (Inr s')"
    by (rule program_returns) (simp_all add: init_def cp_budget_def)
  then show ?thesis by (auto simp: cp_parse_def)
qed


definition np_budget :: "token list \<Rightarrow> nat" where
  "np_budget ts = 16 * length ts + 16"

section \<open>The verdict\<close>








section \<open>Concrete scenarios\<close>

text \<open>
  C7. The tokens of \<open>int main ( ) { return 0 ; }\<close> are accepted by both files with an
  empty list of diagnostics.
\<close>

theorem scenario_A_accepted:
  "map_option (\<lambda>(ok, s). (ok, errors s)) (cp_parse (cp_budget scenario_A) scenario_A) = Some (True, [])
   \<and> map_option (\<lambda>(ok, s). (ok, errors s)) (np_parse (np_budget scenario_A) scenario_A) = Some (True, [])"
  by code_simp

text \<open>
  C8. Both expression parsers read \<open>1 + 2 * 3\<close> and \<open>1 < 2 && 3 > 4\<close> to the end
  without a diagnostic, and both files reject \<open>int main ( ) { * 3 ; }\<close> with a diagnostic
  for the statement that starts with \<open>*\<close>.
\<close>

theorem expression_precedence_examples:
  "cp_exec (cp_budget sum_product) Expression (init sum_product)
     = Some (Return True \<lparr>tokens = sum_product, pos = 5, errors = [], has_main = False\<rparr>)
   \<and> cp_exec (cp_budget comparisons) Expression (init comparisons)
     = Some (Return True \<lparr>tokens = comparisons, pos = 7, errors = [], has_main = False\<rparr>)
   \<and> np_exec (np_budget sum_product) Parse_expression (init sum_product)
     = Some \<lparr>tokens = sum_product, pos = 5, errors = [], has_main = False\<rparr>
   \<and> np_exec (np_budget comparisons) Parse_expression (init comparisons)
     = Some \<lparr>tokens = comparisons, pos = 7, errors = [], has_main = False\<rparr>
   \<and> map_option (\<lambda>(ok, s). (ok, errors s)) (cp_parse (cp_budget bare_star) bare_star)
     = Some (False, [''At token 5 (OPERATOR, *): Invalid statement in block''])
   \<and> map_option (\<lambda>(ok, s). (ok, hd (errors s))) (np_parse (np_budget bare_star) bare_star)
     = Some (False, ''Invalid statement starting with OPERATOR '' @ quoted ''*'')"
  by code_simp

section \<open>The two files side by side\<close>

text \<open>
  C6. On the tokens of \<open>int main ( ) { for ( ; ; ) { } }\<close> the two files disagree:
  \<open>for_statement\<close> of cpp\_parser.py parses an expression where the first clause is
  empty and records a diagnostic, \<open>parse_for_statement\<close> of new\_parse.py tests for the
  semicolon first.
\<close>

theorem empty_for_verdicts_differ:
  "map_option fst (cp_parse (cp_budget empty_for) empty_for) = Some False
   \<and> map_option fst (np_parse (np_budget empty_for) empty_for) = Some True"
  by code_simp

end
